theory Spec2Isabelle
  imports Complex_Main
begin

section \<open>EcoFinds: the storage layer and the REST handlers\<close>

text \<open>
  The embedding follows \<^verbatim>\<open>shared/schema.ts\<close> (the tables), the class
  \<^verbatim>\<open>DatabaseStorage\<close> (the storage layer), \<^verbatim>\<open>registerRoutes\<close> (the handlers),
  the cart page and the component \<^verbatim>\<open>ImpactMetrics\<close>.

  Conventions of the model.
  \<^item> A table is the list of its rows. The rows of the cart query come in an order that the
    SQL leaves to the database; it is a parameter \<open>rank\<close>, by which the rows are sorted.
  \<^item> A nullable column has an \<open>option\<close> type, \<open>None\<close> being SQL \<open>NULL\<close>.
  \<^item> A value of a \<open>decimal(p, 2)\<close> column is the integer number of its hundredths, so
    \<open>10.00\<close> is \<open>1000\<close>. A value written to such a column is rounded to two places and
    must have at most \<open>p\<close> digits; a value written to an \<open>integer\<close> column must fit 32
    bits. A write that breaks one of these, a \<open>NOT NULL\<close> or a foreign key fails, and
    the \<^verbatim>\<open>catch\<close> of the handler answers 500.
  \<^item> A JavaScript number is a rational: the rounding of IEEE doubles is not part of the
    model.
  \<^item> The columns \<open>createdAt\<close> and \<open>updatedAt\<close> and the descriptive columns that no
    modelled operation reads (names, images, category, condition, eco score and the like)
    are left out of the rows.
  \<^item> \<open>gen_random_uuid()\<close> is a parameter \<open>uuid\<close>: \<open>uuid k\<close> is the k-th identifier the
    database draws while it serves the request, and it is taken to be new.
  \<^item> A handler returns its response together with the new state. It is modelled for a
    request that has passed \<^verbatim>\<open>isAuthenticated\<close> and whose body has the types the
    handler reads (\<open>cartItemIds\<close> is an array of ids, a quantity is an integer or
    \<^verbatim>\<open>null\<close>, an amount is a number or missing).
\<close>

subsection \<open>Tables (shared/schema.ts)\<close>

type_synonym ident = string
type_synonym decimal = int

record user =
  u_id :: ident
  u_email :: "string option"
  u_totalCarbonSaved :: "decimal option"

record product =
  p_id :: ident
  p_sellerId :: ident
  p_title :: string
  p_price :: decimal
  p_carbonSaved :: decimal
  p_available :: "bool option"
  p_views :: "int option"

record review =
  r_id :: ident
  r_productId :: ident
  r_buyerId :: ident
  r_rating :: int

record cart_item =
  c_id :: ident
  c_userId :: ident
  c_productId :: ident
  c_quantity :: "int option"

datatype order_status = pending | confirmed | shipped | delivered | cancelled

record order =
  o_id :: ident
  o_buyerId :: ident
  o_totalAmount :: decimal
  o_status :: "order_status option"
  o_shippingAddress :: string
  o_paymentIntentId :: "string option"
  o_totalCarbonSaved :: "decimal option"

record order_item =
  oi_id :: ident
  oi_orderId :: ident
  oi_productId :: ident
  oi_sellerId :: ident
  oi_price :: decimal
  oi_quantity :: "int option"
  oi_carbonSaved :: "decimal option"

record db =
  users :: "user list"
  products :: "product list"
  reviews :: "review list"
  cartItems :: "cart_item list"
  orders :: "order list"
  orderItems :: "order_item list"

text \<open>The extended types: \<^verbatim>\<open>ProductWithSeller\<close> and \<^verbatim>\<open>CartItemWithProduct\<close>.\<close>

record productWithSeller =
  pws_product :: product
  pws_seller :: user
  pws_reviews :: "review list"

record cartItemWithProduct =
  ciw_item :: cart_item
  ciw_product :: productWithSeller

subsection \<open>What the database checks on a write\<close>

datatype db_error = OutOfRange | NotNull | ForeignKey

text \<open>The range of an \<open>integer\<close> column.\<close>

definition int4 :: "int \<Rightarrow> bool" where
  "int4 n = (- 2147483648 \<le> n \<and> n \<le> 2147483647)"

definition int4_or_null :: "int option \<Rightarrow> bool" where
  "int4_or_null q = (case q of None \<Rightarrow> True | Some n \<Rightarrow> int4 n)"

text \<open>
  A number written to a \<open>decimal(precision, 2)\<close> column: rounded to hundredths, half
  away from zero, and refused when it has more than \<open>precision\<close> digits.
\<close>

definition numeric_round :: "rat \<Rightarrow> decimal" where
  "numeric_round x = (if 0 \<le> x then \<lfloor>x * 100 + 1 / 2\<rfloor> else - \<lfloor>- x * 100 + 1 / 2\<rfloor>)"

definition numeric :: "nat \<Rightarrow> rat \<Rightarrow> db_error + decimal" where
  "numeric precision x =
     (if \<bar>numeric_round x\<bar> < 10 ^ precision then Inr (numeric_round x) else Inl OutOfRange)"

subsection \<open>JavaScript values\<close>

text \<open>The number that the text of a decimal column denotes.\<close>

definition parseFloat :: "decimal \<Rightarrow> rat" where
  "parseFloat d = of_int d / 100"

text \<open>The text of a number denotes that number.\<close>

definition toString :: "rat \<Rightarrow> rat" where
  "toString x = x"

text \<open>A quantity used as a factor: \<^verbatim>\<open>x * null\<close> is \<^verbatim>\<open>0\<close> in JavaScript.\<close>

definition quantityNumber :: "int option \<Rightarrow> rat" where
  "quantityNumber q = (case q of None \<Rightarrow> 0 | Some n \<Rightarrow> of_int n)"

text \<open>
  A JavaScript \<^verbatim>\<open>Map\<close> keeps its keys in insertion order: an association list with
  at most one pair per key.
\<close>

type_synonym 'v jsmap = "(ident \<times> 'v) list"

definition map_has :: "'v jsmap \<Rightarrow> ident \<Rightarrow> bool" where
  "map_has m k = (k \<in> set (map fst m))"

definition map_set :: "'v jsmap \<Rightarrow> ident \<Rightarrow> 'v \<Rightarrow> 'v jsmap" where
  "map_set m k v =
     (if map_has m k then map (\<lambda>(k', v'). if k' = k then (k', v) else (k', v')) m
      else m @ [(k, v)])"

text \<open>\<^verbatim>\<open>m.get(k)\<close> followed by a mutation of the object found there.\<close>

definition map_modify :: "'v jsmap \<Rightarrow> ident \<Rightarrow> ('v \<Rightarrow> 'v) \<Rightarrow> 'v jsmap" where
  "map_modify m k f = map (\<lambda>(k', v'). if k' = k then (k', f v') else (k', v')) m"

definition map_values :: "'v jsmap \<Rightarrow> 'v list" where
  "map_values m = map snd m"

subsection \<open>DatabaseStorage: the cart\<close>

text \<open>The rows a \<^verbatim>\<open>leftJoin\<close> pairs with one left row: the matches, or one \<open>NULL\<close>.\<close>

definition left_join :: "'a list \<Rightarrow> 'a option list" where
  "left_join rs = (if rs = [] then [None] else map Some rs)"

text \<open>
  The query of \<^verbatim>\<open>getCartItems\<close>: the rows of the join that pass the \<^verbatim>\<open>where\<close>,
  and then the order in which the database hands them over. The query has no
  \<^verbatim>\<open>ORDER BY\<close>, so every order is possible: the rows are sorted by \<open>rank\<close>, which
  is arbitrary.
\<close>

type_synonym cart_row = "cart_item \<times> product \<times> user \<times> review option"

definition cart_join :: "db \<Rightarrow> ident \<Rightarrow> cart_row list" where
  "cart_join st userId =
     [(c, p, u, r).
        c \<leftarrow> cartItems st,
        p \<leftarrow> products st, c_productId c = p_id p,
        u \<leftarrow> users st, p_sellerId p = u_id u,
        r \<leftarrow> left_join [r \<leftarrow> reviews st. p_id p = r_productId r],
        c_userId c = userId \<and> p_available p = Some True]"

definition cart_query :: "(cart_row \<Rightarrow> nat) \<Rightarrow> db \<Rightarrow> ident \<Rightarrow> cart_row list" where
  "cart_query rank st userId = sort_key rank (cart_join st userId)"

text \<open>The body of the \<^verbatim>\<open>forEach\<close> that groups the rows by cart item.\<close>

definition push_review :: "review \<Rightarrow> cartItemWithProduct \<Rightarrow> cartItemWithProduct" where
  "push_review r e =
     e\<lparr>ciw_product := (ciw_product e)\<lparr>pws_reviews := pws_reviews (ciw_product e) @ [r]\<rparr>\<rparr>"

fun group_cart_row :: "cartItemWithProduct jsmap \<Rightarrow> cart_row \<Rightarrow> cartItemWithProduct jsmap" where
  "group_cart_row cartMap (c, p, u, r) =
     (let cartMap1 =
        (if \<not> map_has cartMap (c_id c)
         then map_set cartMap (c_id c)
                \<lparr>ciw_item = c,
                 ciw_product = \<lparr>pws_product = p, pws_seller = u, pws_reviews = []\<rparr>\<rparr>
         else cartMap)
      in case r of
           None \<Rightarrow> cartMap1
         | Some rv \<Rightarrow> map_modify cartMap1 (c_id c) (push_review rv))"

definition getCartItems :: "(cart_row \<Rightarrow> nat) \<Rightarrow> db \<Rightarrow> ident \<Rightarrow> cartItemWithProduct list" where
  "getCartItems rank st userId =
     map_values (foldl group_cart_row [] (cart_query rank st userId))"

text \<open>
  \<^verbatim>\<open>addToCart\<close>: both references must exist and the quantity must fit its column.
\<close>

definition addToCart ::
  "(nat \<Rightarrow> ident) \<Rightarrow> db \<Rightarrow> ident \<Rightarrow> ident \<Rightarrow> int option \<Rightarrow> db_error + cart_item \<times> db" where
  "addToCart uuid st userId productId quantity =
     (if userId \<notin> set (map u_id (users st)) \<or> productId \<notin> set (map p_id (products st))
      then Inl ForeignKey
      else if \<not> int4_or_null quantity then Inl OutOfRange
      else
        (let cartItem =
           \<lparr>c_id = uuid 0, c_userId = userId, c_productId = productId, c_quantity = quantity\<rparr>
         in Inr (cartItem, st\<lparr>cartItems := cartItems st @ [cartItem]\<rparr>)))"

definition updateCartItem ::
  "db \<Rightarrow> ident \<Rightarrow> int option \<Rightarrow> db_error + cart_item option \<times> db" where
  "updateCartItem st cid quantity =
     (if \<not> int4_or_null quantity then Inl OutOfRange
      else
        (let rows = map (\<lambda>c. if c_id c = cid then c\<lparr>c_quantity := quantity\<rparr> else c)
                        (cartItems st);
             returning = filter (\<lambda>c. c_id c = cid) rows
         in Inr (case returning of [] \<Rightarrow> None | updatedItem # _ \<Rightarrow> Some updatedItem,
                 st\<lparr>cartItems := rows\<rparr>)))"

definition removeFromCart :: "db \<Rightarrow> ident \<Rightarrow> db" where
  "removeFromCart st cid = st\<lparr>cartItems := filter (\<lambda>c. c_id c \<noteq> cid) (cartItems st)\<rparr>"

subsection \<open>DatabaseStorage: users and orders\<close>

text \<open>
  \<^verbatim>\<open>updateUserCarbonSaved\<close>: \<open>total_carbon_saved + carbonSaved\<close> in every row of that
  id; \<open>NULL\<close> stays \<open>NULL\<close>. The statement fails when a sum does not fit
  \<open>decimal(10, 2)\<close>.
\<close>

definition updateUserCarbonSaved :: "db \<Rightarrow> ident \<Rightarrow> rat \<Rightarrow> db_error + db" where
  "updateUserCarbonSaved st uid carbonSaved =
     (if list_all (\<lambda>u. u_id u = uid \<longrightarrow>
                       (case u_totalCarbonSaved u of
                          None \<Rightarrow> True
                        | Some t \<Rightarrow> \<bar>numeric_round (parseFloat t + carbonSaved)\<bar> < 10 ^ 10))
                  (users st)
      then Inr (st\<lparr>users :=
                  map (\<lambda>u. if u_id u = uid
                           then u\<lparr>u_totalCarbonSaved :=
                                    map_option (\<lambda>t. numeric_round (parseFloat t + carbonSaved))
                                      (u_totalCarbonSaved u)\<rparr>
                           else u)
                      (users st)\<rparr>)
      else Inl OutOfRange)"

text \<open>
  An \<^verbatim>\<open>InsertOrder\<close> as the handler builds it: the two totals are texts of numbers,
  the address may be missing from the body.
\<close>

record insertOrder =
  io_buyerId :: ident
  io_totalAmount :: rat
  io_shippingAddress :: "string option"
  io_paymentIntentId :: "string option"
  io_totalCarbonSaved :: rat
  io_status :: order_status

definition createOrder :: "(nat \<Rightarrow> ident) \<Rightarrow> db \<Rightarrow> insertOrder \<Rightarrow> db_error + order \<times> db" where
  "createOrder uuid st ins =
     (if io_buyerId ins \<notin> set (map u_id (users st)) then Inl ForeignKey
      else
        (case io_shippingAddress ins of
           None \<Rightarrow> Inl NotNull
         | Some address \<Rightarrow>
             (case numeric 10 (io_totalAmount ins) of
                Inl e \<Rightarrow> Inl e
              | Inr totalAmount \<Rightarrow>
                  (case numeric 10 (io_totalCarbonSaved ins) of
                     Inl e \<Rightarrow> Inl e
                   | Inr totalCarbonSaved \<Rightarrow>
                       (let newOrder =
                          \<lparr>o_id = uuid 0,
                           o_buyerId = io_buyerId ins,
                           o_totalAmount = totalAmount,
                           o_status = Some (io_status ins),
                           o_shippingAddress = address,
                           o_paymentIntentId = io_paymentIntentId ins,
                           o_totalCarbonSaved = Some totalCarbonSaved\<rparr>
                        in Inr (newOrder, st\<lparr>orders := orders st @ [newOrder]\<rparr>))))))"

text \<open>
  \<^verbatim>\<open>createOrderItems\<close>, for the rows that order placement builds: their price, carbon
  saved and quantity are copies of stored values of columns of the same type, and the
  product, the seller and the order they refer to are rows that the handler has just read
  or written, so the database has nothing to refuse.
\<close>

definition createOrderItems :: "db \<Rightarrow> order_item list \<Rightarrow> order_item list \<times> db" where
  "createOrderItems st newItems = (newItems, st\<lparr>orderItems := orderItems st @ newItems\<rparr>)"

subsection \<open>POST /api/create-order\<close>

datatype payload =
    Message string
  | OrderId ident
  | ClientSecret string
  | ProductBody productWithSeller
  | CartItemBody "cart_item option"
  | NoContent

datatype response = Response (status: nat) (body: payload)

text \<open>
  One pass of the callback of \<^verbatim>\<open>validCartItems.map\<close>: it adds to the two running
  totals and yields the data of one order item (the row without \<open>id\<close> and \<open>orderId\<close>,
  which are filled in afterwards).
\<close>

definition order_item_data :: "cartItemWithProduct \<Rightarrow> order_item" where
  "order_item_data item =
     \<lparr>oi_id = [], oi_orderId = [],
      oi_productId = p_id (pws_product (ciw_product item)),
      oi_sellerId = p_sellerId (pws_product (ciw_product item)),
      oi_price = p_price (pws_product (ciw_product item)),
      oi_quantity = c_quantity (ciw_item item),
      oi_carbonSaved = Some (p_carbonSaved (pws_product (ciw_product item)))\<rparr>"

definition order_line ::
  "rat \<times> rat \<times> order_item list \<Rightarrow> cartItemWithProduct \<Rightarrow> rat \<times> rat \<times> order_item list" where
  "order_line acc item =
     (case acc of (totalAmount, totalCarbonSaved, out) \<Rightarrow>
        (let itemTotal = parseFloat (p_price (pws_product (ciw_product item)))
                           * quantityNumber (c_quantity (ciw_item item))
         in (totalAmount + itemTotal,
             totalCarbonSaved + parseFloat (p_carbonSaved (pws_product (ciw_product item)))
                                  * quantityNumber (c_quantity (ciw_item item)),
             out @ [order_item_data item])))"

definition validCartItems ::
  "(cart_row \<Rightarrow> nat) \<Rightarrow> db \<Rightarrow> ident \<Rightarrow> ident list \<Rightarrow> cartItemWithProduct list" where
  "validCartItems rank st userId cartItemIds =
     filter (\<lambda>item. c_id (ciw_item item) \<in> set cartItemIds) (getCartItems rank st userId)"

text \<open>
  The handler. No transaction spans its writes: when the update of the counter fails, the
  order and its items stay and the cart is not cleared.
\<close>

definition create_order ::
  "(nat \<Rightarrow> ident) \<Rightarrow> (cart_row \<Rightarrow> nat) \<Rightarrow> db \<Rightarrow> ident \<Rightarrow> ident list \<Rightarrow> string option
     \<Rightarrow> string option \<Rightarrow> response \<times> db" where
  "create_order uuid rank st userId cartItemIds shippingAddress paymentIntentId =
     (let valid = validCartItems rank st userId cartItemIds
      in if length valid = 0
         then (Response 400 (Message ''No valid cart items found''), st)
         else
           (case foldl order_line (0, 0, []) valid of
              (totalAmount, totalCarbonSaved, orderItemsData) \<Rightarrow>
                (case createOrder uuid st
                        \<lparr>io_buyerId = userId,
                         io_totalAmount = toString totalAmount,
                         io_shippingAddress = shippingAddress,
                         io_paymentIntentId = paymentIntentId,
                         io_totalCarbonSaved = toString totalCarbonSaved,
                         io_status = confirmed\<rparr> of
                   Inl e \<Rightarrow> (Response 500 (Message ''Failed to create order''), st)
                 | Inr (order, st1) \<Rightarrow>
                     (case createOrderItems st1
                             (map (\<lambda>(k, item). item\<lparr>oi_id := uuid k, oi_orderId := o_id order\<rparr>)
                                  (enumerate 1 orderItemsData)) of
                        (newItems, st2) \<Rightarrow>
                          (case updateUserCarbonSaved st2 userId totalCarbonSaved of
                             Inl e \<Rightarrow> (Response 500 (Message ''Failed to create order''), st2)
                           | Inr st3 \<Rightarrow>
                               (let st4 = foldl removeFromCart st3 cartItemIds
                                in (Response 201 (OrderId (o_id order)), st4)))))))"

subsection \<open>GET /api/products/:id\<close>

definition getProduct :: "db \<Rightarrow> ident \<Rightarrow> productWithSeller option" where
  "getProduct st pid =
     (let result =
        [(p, u, r).
           p \<leftarrow> products st,
           u \<leftarrow> users st, p_sellerId p = u_id u,
           r \<leftarrow> left_join [r \<leftarrow> reviews st. p_id p = r_productId r],
           p_id p = pid]
      in case result of
           [] \<Rightarrow> None
         | (productData, seller, _) # _ \<Rightarrow>
             Some \<lparr>pws_product = productData, pws_seller = seller,
                   pws_reviews = List.map_filter (\<lambda>(p, u, r). r) result\<rparr>)"

text \<open>
  \<^verbatim>\<open>incrementProductViews\<close>: \<open>views + 1\<close> in every row of that id; \<open>NULL\<close> stays
  \<open>NULL\<close>. The statement fails when a sum does not fit the \<open>integer\<close> column.
\<close>

definition incrementProductViews :: "db \<Rightarrow> ident \<Rightarrow> db_error + db" where
  "incrementProductViews st pid =
     (if list_all (\<lambda>p. p_id p = pid \<longrightarrow> int4_or_null (map_option (\<lambda>v. v + 1) (p_views p)))
                  (products st)
      then Inr (st\<lparr>products :=
                  map (\<lambda>p. if p_id p = pid
                           then p\<lparr>p_views := map_option (\<lambda>v. v + 1) (p_views p)\<rparr>
                           else p)
                      (products st)\<rparr>)
      else Inl OutOfRange)"

definition get_product :: "db \<Rightarrow> ident \<Rightarrow> response \<times> db" where
  "get_product st pid =
     (case getProduct st pid of
        None \<Rightarrow> (Response 404 (Message ''Product not found''), st)
      | Some product \<Rightarrow>
          (case incrementProductViews st pid of
             Inl e \<Rightarrow> (Response 500 (Message ''Failed to fetch product''), st)
           | Inr st' \<Rightarrow> (Response 200 (ProductBody product), st')))"

text \<open>A run of fetches of the same product.\<close>

fun fetches :: "nat \<Rightarrow> db \<Rightarrow> ident \<Rightarrow> db" where
  "fetches 0 st pid = st"
| "fetches (Suc n) st pid = fetches n (snd (get_product st pid)) pid"

subsection \<open>PUT and DELETE /api/cart/:id, and the quantity controls of the cart page\<close>

text \<open>The body carries \<open>quantity\<close>, an integer or \<^verbatim>\<open>null\<close>.\<close>

definition put_cart :: "db \<Rightarrow> ident \<Rightarrow> int option \<Rightarrow> response \<times> db" where
  "put_cart st cid quantity =
     (case updateCartItem st cid quantity of
        Inl e \<Rightarrow> (Response 500 (Message ''Failed to update cart item''), st)
      | Inr (cartItem, st') \<Rightarrow> (Response 200 (CartItemBody cartItem), st'))"

definition delete_cart :: "db \<Rightarrow> ident \<Rightarrow> response \<times> db" where
  "delete_cart st cid = (Response 204 NoContent, removeFromCart st cid)"

text \<open>
  \<^verbatim>\<open>updateQuantity\<close> of the cart page (the two buttons): the quantity it sends, if it
  sends a request at all.
\<close>

definition updateQuantity :: "int \<Rightarrow> int \<Rightarrow> int option" where
  "updateQuantity currentQuantity change =
     (let newQuantity = max 1 (currentQuantity + change)
      in if newQuantity \<noteq> currentQuantity then Some newQuantity else None)"

text \<open>
  The \<^verbatim>\<open>onChange\<close> of the quantity input: \<^verbatim>\<open>Math.max(1, parseInt(value) || 1)\<close>,
  where \<^verbatim>\<open>parseInt\<close> yields an integer or \<^verbatim>\<open>NaN\<close> (\<open>None\<close>).
\<close>

definition inputQuantity :: "int option \<Rightarrow> int" where
  "inputQuantity parsed =
     max 1 (case parsed of None \<Rightarrow> 1 | Some n \<Rightarrow> if n = 0 then 1 else n)"

subsection \<open>POST /api/create-payment-intent\<close>

record payment_intent_params =
  pi_amount :: int
  pi_currency :: string
  pi_userId :: ident
  pi_cartItemIds :: "ident list"

text \<open>
  The payment processor is outside the program. A configured client answers a request with
  a client secret (\<open>Inr\<close>) or throws (\<open>Inl\<close>, the message); \<open>None\<close> is the missing
  \<^verbatim>\<open>STRIPE_SECRET_KEY\<close>. The calls made reach the processor in a list.
\<close>

type_synonym stripe_client = "payment_intent_params \<Rightarrow> string + string"

definition math_round :: "rat \<Rightarrow> int" where
  "math_round x = \<lfloor>x + 1 / 2\<rfloor>"

text \<open>
  The amount of the body is a number or missing (\<open>None\<close>); \<^verbatim>\<open>!amount\<close> holds of a
  missing amount and of \<open>0\<close>.
\<close>

definition create_payment_intent ::
  "stripe_client option \<Rightarrow> payment_intent_params list \<Rightarrow> ident \<Rightarrow> rat option \<Rightarrow> ident list
     \<Rightarrow> response \<times> payment_intent_params list" where
  "create_payment_intent stripe calls userId amount cartItemIds =
     (case stripe of
        None \<Rightarrow>
          (Response 503
             (Message ''Payment processing is not configured. Please contact support.''),
           calls)
      | Some client \<Rightarrow>
          (case amount of
             None \<Rightarrow> (Response 400 (Message ''Invalid amount''), calls)
           | Some a \<Rightarrow>
               if a = 0 \<or> a \<le> 0
               then (Response 400 (Message ''Invalid amount''), calls)
               else
                 (let params = \<lparr>pi_amount = math_round (a * 100),
                                pi_currency = ''usd'',
                                pi_userId = userId,
                                pi_cartItemIds = cartItemIds\<rparr>
                  in case client params of
                       Inl message \<Rightarrow>
                         (Response 500
                            (Message (''Error creating payment intent: '' @ message)),
                          calls @ [params])
                     | Inr client_secret \<Rightarrow>
                         (Response 200 (ClientSecret client_secret), calls @ [params]))))"

definition client_error :: "response \<Rightarrow> bool" where
  "client_error r = (400 \<le> status r \<and> status r < 500)"

subsection \<open>ImpactMetrics\<close>






subsection \<open>The other storage methods and the requests of the REST surface\<close>

text \<open>
  A \<^verbatim>\<open>Partial<InsertProduct>\<close>: \<open>None\<close> is a key that is not there. A price and a
  carbon saving are texts of numbers, written to \<open>decimal(10, 2)\<close> and \<open>decimal(8, 2)\<close>.
\<close>

record productUpdates =
  pu_sellerId :: "ident option"
  pu_title :: "string option"
  pu_price :: "rat option"
  pu_carbonSaved :: "rat option"
  pu_available :: "bool option option"

definition updates_ok :: "db \<Rightarrow> productUpdates \<Rightarrow> bool" where
  "updates_ok st updates =
     ((case pu_sellerId updates of None \<Rightarrow> True | Some s \<Rightarrow> s \<in> set (map u_id (users st)))
      \<and> (case pu_price updates of None \<Rightarrow> True | Some x \<Rightarrow> \<bar>numeric_round x\<bar> < 10 ^ 10)
      \<and> (case pu_carbonSaved updates of None \<Rightarrow> True | Some x \<Rightarrow> \<bar>numeric_round x\<bar> < 10 ^ 8))"

definition apply_updates :: "product \<Rightarrow> productUpdates \<Rightarrow> product" where
  "apply_updates p updates =
     p\<lparr>p_sellerId := (case pu_sellerId updates of None \<Rightarrow> p_sellerId p | Some v \<Rightarrow> v),
       p_title := (case pu_title updates of None \<Rightarrow> p_title p | Some v \<Rightarrow> v),
       p_price := (case pu_price updates of None \<Rightarrow> p_price p | Some v \<Rightarrow> numeric_round v),
       p_carbonSaved :=
         (case pu_carbonSaved updates of None \<Rightarrow> p_carbonSaved p | Some v \<Rightarrow> numeric_round v),
       p_available := (case pu_available updates of None \<Rightarrow> p_available p | Some v \<Rightarrow> v)\<rparr>"

definition updateProduct ::
  "db \<Rightarrow> ident \<Rightarrow> productUpdates \<Rightarrow> db_error + product option \<times> db" where
  "updateProduct st pid updates =
     (if \<not> updates_ok st updates then Inl OutOfRange
      else
        (let rows = map (\<lambda>p. if p_id p = pid then apply_updates p updates else p) (products st);
             returning = filter (\<lambda>p. p_id p = pid) rows
         in Inr (case returning of [] \<Rightarrow> None | updatedProduct # _ \<Rightarrow> Some updatedProduct,
                 st\<lparr>products := rows\<rparr>)))"

text \<open>
  An \<^verbatim>\<open>InsertProduct\<close>, as \<^verbatim>\<open>insertProductSchema\<close> lets it through: no \<open>id\<close>, no
  \<open>views\<close>; \<open>available\<close> may be missing, and then the column default applies.
\<close>

record insertProduct =
  ip_sellerId :: ident
  ip_title :: string
  ip_price :: rat
  ip_carbonSaved :: rat
  ip_available :: "bool option option"

definition createProduct ::
  "(nat \<Rightarrow> ident) \<Rightarrow> db \<Rightarrow> insertProduct \<Rightarrow> db_error + product \<times> db" where
  "createProduct uuid st ins =
     (if ip_sellerId ins \<notin> set (map u_id (users st)) then Inl ForeignKey
      else
        (case numeric 10 (ip_price ins) of
           Inl e \<Rightarrow> Inl e
         | Inr price \<Rightarrow>
             (case numeric 8 (ip_carbonSaved ins) of
                Inl e \<Rightarrow> Inl e
              | Inr carbonSaved \<Rightarrow>
                  (let newProduct =
                     \<lparr>p_id = uuid 0,
                      p_sellerId = ip_sellerId ins,
                      p_title = ip_title ins,
                      p_price = price,
                      p_carbonSaved = carbonSaved,
                      p_available = (case ip_available ins of None \<Rightarrow> Some True | Some v \<Rightarrow> v),
                      p_views = Some 0\<rparr>
                   in Inr (newProduct, st\<lparr>products := products st @ [newProduct]\<rparr>)))))"

definition createReview ::
  "(nat \<Rightarrow> ident) \<Rightarrow> db \<Rightarrow> ident \<Rightarrow> ident \<Rightarrow> int \<Rightarrow> db_error + review \<times> db" where
  "createReview uuid st productId buyerId rating =
     (if productId \<notin> set (map p_id (products st)) \<or> buyerId \<notin> set (map u_id (users st))
      then Inl ForeignKey
      else if \<not> int4 rating then Inl OutOfRange
      else
        (let newReview =
           \<lparr>r_id = uuid 0, r_productId = productId, r_buyerId = buyerId, r_rating = rating\<rparr>
         in Inr (newReview, st\<lparr>reviews := reviews st @ [newReview]\<rparr>)))"



text \<open>The state after a call of the storage layer: the old one when the call has failed.\<close>

definition state_after :: "db \<Rightarrow> db_error + 'a \<times> db \<Rightarrow> db" where
  "state_after st r = (case r of Inl e \<Rightarrow> st | Inr (x, st') \<Rightarrow> st')"

text \<open>
  The requests that \<^verbatim>\<open>registerRoutes\<close> serves, each with what its handler reads from
  the session, the path and the body. A body that a schema rejects is \<open>None\<close>; the
  quantity of \<^verbatim>\<open>POST /api/cart\<close> is \<open>None\<close> when the body has none.
\<close>

datatype request =
    GetAuthUser ident
  | GetProducts
  | GetProduct ident
  | PostProduct ident "insertProduct option"
  | GetMyProducts ident
  | GetReviews ident
  | PostReview ident ident "int option"
  | GetCart ident
  | PostCart ident ident "int option option"
  | PutCart ident "int option"
  | DeleteCart ident
  | GetOrders ident
  | GetOrder ident
  | CreatePaymentIntent ident "rat option" "ident list"
  | CreateOrder ident "ident list" "string option" "string option"

text \<open>The state a request leaves behind.\<close>

fun route_effect :: "(nat \<Rightarrow> ident) \<Rightarrow> (cart_row \<Rightarrow> nat) \<Rightarrow> db \<Rightarrow> request \<Rightarrow> db" where
  "route_effect uuid rank st (GetAuthUser userId) = st"
| "route_effect uuid rank st GetProducts = st"
| "route_effect uuid rank st (GetProduct pid) = snd (get_product st pid)"
| "route_effect uuid rank st (PostProduct userId parsed) =
     (case parsed of
        None \<Rightarrow> st
      | Some productData \<Rightarrow>
          state_after st (createProduct uuid st (productData\<lparr>ip_sellerId := userId\<rparr>)))"
| "route_effect uuid rank st (GetMyProducts userId) = st"
| "route_effect uuid rank st (GetReviews pid) = st"
| "route_effect uuid rank st (PostReview userId pid parsed) =
     (case parsed of
        None \<Rightarrow> st
      | Some rating \<Rightarrow> state_after st (createReview uuid st pid userId rating))"
| "route_effect uuid rank st (GetCart userId) = st"
| "route_effect uuid rank st (PostCart userId productId quantity) =
     state_after st (addToCart uuid st userId productId
                       (case quantity of None \<Rightarrow> Some 1 | Some q \<Rightarrow> q))"
| "route_effect uuid rank st (PutCart cid quantity) = snd (put_cart st cid quantity)"
| "route_effect uuid rank st (DeleteCart cid) = snd (delete_cart st cid)"
| "route_effect uuid rank st (GetOrders userId) = st"
| "route_effect uuid rank st (GetOrder oid) = st"
| "route_effect uuid rank st (CreatePaymentIntent userId amount cartItemIds) = st"
| "route_effect uuid rank st (CreateOrder userId cartItemIds shippingAddress paymentIntentId) =
     snd (create_order uuid rank st userId cartItemIds shippingAddress paymentIntentId)"


text \<open>
  The view counter of a product row may stay as it is (also when it is \<open>NULL\<close>) or grow.
\<close>

definition views_kept_or_grown :: "product \<Rightarrow> product \<Rightarrow> bool" where
  "views_kept_or_grown p p' =
     (p_id p' = p_id p \<and>
      (case (p_views p, p_views p') of
         (None, None) \<Rightarrow> True
       | (Some x, Some y) \<Rightarrow> x \<le> y
       | _ \<Rightarrow> False))"

text \<open>
  Every counter in the product rows of an id is a 32-bit integer, and is one still when
  \<open>n\<close> is added to it.
\<close>

definition views_fit :: "db \<Rightarrow> ident \<Rightarrow> int \<Rightarrow> bool" where
  "views_fit st pid n =
     list_all (\<lambda>p. p_id p = pid \<longrightarrow>
                    (case p_views p of None \<Rightarrow> True | Some v \<Rightarrow> int4 v \<and> int4 (v + n)))
              (products st)"


subsection \<open>A small marketplace to run the handlers on\<close>

definition example_uuid :: "nat \<Rightarrow> ident" where
  "example_uuid k = ''id-'' @ replicate k (CHR ''i'')"

text \<open>Two ways for the database to order the rows of the cart query.\<close>

definition table_order :: "cart_row \<Rightarrow> nat" where
  "table_order row = 0"

definition b_first :: "cart_row \<Rightarrow> nat" where
  "b_first row = (if c_id (fst row) = ''b'' then 0 else 1)"

definition example_seller :: user where
  "example_seller =
     \<lparr>u_id = ''s1'', u_email = Some ''seller@example.org'', u_totalCarbonSaved = Some 0\<rparr>"

definition example_buyer :: user where
  "example_buyer =
     \<lparr>u_id = ''u1'', u_email = Some ''buyer@example.org'', u_totalCarbonSaved = Some 400\<rparr>"

definition example_P1 :: "decimal \<Rightarrow> product" where
  "example_P1 carbon =
     \<lparr>p_id = ''P1'', p_sellerId = ''s1'', p_title = ''Lamp'', p_price = 1000,
      p_carbonSaved = carbon, p_available = Some True, p_views = Some 0\<rparr>"

definition example_P2 :: "decimal \<Rightarrow> product" where
  "example_P2 carbon =
     \<lparr>p_id = ''P2'', p_sellerId = ''s1'', p_title = ''Book'', p_price = 500,
      p_carbonSaved = carbon, p_available = Some True, p_views = Some 7\<rparr>"

definition example_a :: cart_item where
  "example_a = \<lparr>c_id = ''a'', c_userId = ''u1'', c_productId = ''P1'', c_quantity = Some 2\<rparr>"

definition example_b :: cart_item where
  "example_b = \<lparr>c_id = ''b'', c_userId = ''u1'', c_productId = ''P2'', c_quantity = Some 1\<rparr>"

definition example_reviews :: "review list" where
  "example_reviews =
     [\<lparr>r_id = ''r1'', r_productId = ''P1'', r_buyerId = ''u1'', r_rating = 5\<rparr>,
      \<lparr>r_id = ''r2'', r_productId = ''P1'', r_buyerId = ''s1'', r_rating = 4\<rparr>]"

text \<open>
  The cart of the buyer \<open>u1\<close> holds \<open>a\<close> (two of \<open>P1\<close>, at 10.00) and \<open>b\<close> (one of
  \<open>P2\<close>, at 5.00); the carbon saved by each product, in hundredths, is a parameter.
\<close>

definition example_db :: "decimal \<Rightarrow> decimal \<Rightarrow> db" where
  "example_db c1 c2 =
     \<lparr>users = [example_seller, example_buyer],
      products = [example_P1 c1, example_P2 c2],
      reviews = example_reviews,
      cartItems = [example_a, example_b],
      orders = [],
      orderItems = []\<rparr>"

text \<open>
  A second state: the buyer \<open>u1\<close> also holds \<open>c\<close>, whose product \<open>P3\<close> is no longer
  available, and another user, \<open>u2\<close>, holds \<open>d\<close>.
\<close>

definition example_buyer2 :: user where
  "example_buyer2 = \<lparr>u_id = ''u2'', u_email = None, u_totalCarbonSaved = Some 100\<rparr>"

definition example_P3 :: product where
  "example_P3 =
     \<lparr>p_id = ''P3'', p_sellerId = ''s1'', p_title = ''Chair'', p_price = 800,
      p_carbonSaved = 200, p_available = Some False, p_views = Some 3\<rparr>"

definition example_c :: cart_item where
  "example_c = \<lparr>c_id = ''c'', c_userId = ''u1'', c_productId = ''P3'', c_quantity = Some 1\<rparr>"

definition example_d :: cart_item where
  "example_d = \<lparr>c_id = ''d'', c_userId = ''u2'', c_productId = ''P2'', c_quantity = Some 3\<rparr>"

definition example_db2 :: db where
  "example_db2 =
     \<lparr>users = [example_seller, example_buyer, example_buyer2],
      products = [example_P1 300, example_P2 150, example_P3],
      reviews = example_reviews,
      cartItems = [example_a, example_b, example_c, example_d],
      orders = [],
      orderItems = []\<rparr>"

section \<open>Properties\<close>

subsection \<open>Numbers and columns\<close>

lemma numeric_round_hundredths: "numeric_round (of_int k / 100) = k"
proof (cases "0 \<le> k")
  case True
  have "\<lfloor>(of_int k :: rat) + 1 / 2\<rfloor> = k"
    by (rule floor_unique) simp_all
  with True show ?thesis by (simp add: numeric_round_def)
next
  case False
  have "\<lfloor>(of_int (- k) :: rat) + 1 / 2\<rfloor> = - k"
    by (rule floor_unique) simp_all
  with False show ?thesis by (simp add: numeric_round_def)
qed

lemma parseFloat_plus: "parseFloat t + of_int k / 100 = of_int (t + k) / 100"
  by (simp add: parseFloat_def add_divide_distrib)

lemma numeric_round_counter: "numeric_round (parseFloat t + of_int k / 100) = t + k"
  by (simp only: parseFloat_plus numeric_round_hundredths)

lemma quantityNumber_int:
  "quantityNumber q = of_int (case q of None \<Rightarrow> 0 | Some n \<Rightarrow> n)"
  by (cases q) (simp_all add: quantityNumber_def)

text \<open>A sum of prices times quantities is a number of hundredths.\<close>

lemma sum_hundredths:
  "(\<Sum>x\<leftarrow>xs. parseFloat (f x) * quantityNumber (q x))
     = of_int (\<Sum>x\<leftarrow>xs. f x * (case q x of None \<Rightarrow> 0 | Some n \<Rightarrow> n)) / 100"
proof (induction xs)
  case Nil
  show ?case by simp
next
  case (Cons x xs)
  have "parseFloat (f x) * quantityNumber (q x)
          = of_int (f x * (case q x of None \<Rightarrow> 0 | Some n \<Rightarrow> n)) / 100"
    by (simp add: parseFloat_def quantityNumber_int)
  with Cons.IH show ?case
    by (simp add: add_divide_distrib)
qed

subsection \<open>Order placement, step by step\<close>

lemma order_line_foldl:
  "foldl order_line (ta, tc, out) xs =
     (ta + (\<Sum>item\<leftarrow>xs. parseFloat (p_price (pws_product (ciw_product item)))
                          * quantityNumber (c_quantity (ciw_item item))),
      tc + (\<Sum>item\<leftarrow>xs. parseFloat (p_carbonSaved (pws_product (ciw_product item)))
                          * quantityNumber (c_quantity (ciw_item item))),
      out @ map order_item_data xs)"
  by (induction xs arbitrary: ta tc out) (simp_all add: order_line_def Let_def)

lemma removeFromCart_foldl:
  "foldl removeFromCart st ids =
     st\<lparr>cartItems := filter (\<lambda>c. c_id c \<notin> set ids) (cartItems st)\<rparr>"
proof (induction ids arbitrary: st)
  case Nil
  show ?case by simp
next
  case (Cons i ids)
  have "foldl removeFromCart st (i # ids) = foldl removeFromCart (removeFromCart st i) ids"
    by simp
  also have "\<dots> = (removeFromCart st i)\<lparr>cartItems :=
      filter (\<lambda>c. c_id c \<notin> set ids) (cartItems (removeFromCart st i))\<rparr>"
    by (rule Cons.IH)
  also have "\<dots> = st\<lparr>cartItems := filter (\<lambda>c. c_id c \<notin> set (i # ids)) (cartItems st)\<rparr>"
    by (simp add: removeFromCart_def conj_commute)
  finally show ?case .
qed


text \<open>
  The three ways a request with a non-empty selection can end. \<open>A\<close> and \<open>C\<close> are the two
  totals in hundredths.
\<close>

lemma create_order_refused:
  assumes "validCartItems rank st userId ids \<noteq> []"
      and "A = (\<Sum>item\<leftarrow>validCartItems rank st userId ids.
                 p_price (pws_product (ciw_product item))
                   * (case c_quantity (ciw_item item) of None \<Rightarrow> 0 | Some n \<Rightarrow> n))"
      and "C = (\<Sum>item\<leftarrow>validCartItems rank st userId ids.
                 p_carbonSaved (pws_product (ciw_product item))
                   * (case c_quantity (ciw_item item) of None \<Rightarrow> 0 | Some n \<Rightarrow> n))"
      and "userId \<notin> set (map u_id (users st)) \<or> addr = None
           \<or> \<not> \<bar>A\<bar> < 10 ^ 10 \<or> \<not> \<bar>C\<bar> < 10 ^ 10"
  shows "create_order uuid rank st userId ids addr pay
           = (Response 500 (Message ''Failed to create order''), st)"
proof -
  have "createOrder uuid st
          \<lparr>io_buyerId = userId, io_totalAmount = of_int A / 100, io_shippingAddress = addr,
           io_paymentIntentId = pay, io_totalCarbonSaved = of_int C / 100,
           io_status = confirmed\<rparr> = Inl e \<Longrightarrow> ?thesis" for e
    using assms(1)
    by (simp add: create_order_def order_line_foldl sum_hundredths toString_def
        assms(2)[symmetric] assms(3)[symmetric])
  moreover have "\<exists>e. createOrder uuid st
          \<lparr>io_buyerId = userId, io_totalAmount = of_int A / 100, io_shippingAddress = addr,
           io_paymentIntentId = pay, io_totalCarbonSaved = of_int C / 100,
           io_status = confirmed\<rparr> = Inl e"
    using assms(4)
    by (auto simp: createOrder_def numeric_def numeric_round_hundredths split: option.splits)
  ultimately show ?thesis by blast
qed

lemma create_order_inserted:
  assumes "validCartItems rank st userId ids \<noteq> []"
      and "A = (\<Sum>item\<leftarrow>validCartItems rank st userId ids.
                 p_price (pws_product (ciw_product item))
                   * (case c_quantity (ciw_item item) of None \<Rightarrow> 0 | Some n \<Rightarrow> n))"
      and "C = (\<Sum>item\<leftarrow>validCartItems rank st userId ids.
                 p_carbonSaved (pws_product (ciw_product item))
                   * (case c_quantity (ciw_item item) of None \<Rightarrow> 0 | Some n \<Rightarrow> n))"
      and "userId \<in> set (map u_id (users st))" and "addr = Some address"
      and "\<bar>A\<bar> < 10 ^ 10" and "\<bar>C\<bar> < 10 ^ 10"
      and "st2 = st\<lparr>orders := orders st @
                      [\<lparr>o_id = uuid 0, o_buyerId = userId, o_totalAmount = A,
                        o_status = Some confirmed, o_shippingAddress = address,
                        o_paymentIntentId = pay, o_totalCarbonSaved = Some C\<rparr>],
                    orderItems := orderItems st @
                      map (\<lambda>(k, item). item\<lparr>oi_id := uuid k, oi_orderId := uuid 0\<rparr>)
                          (enumerate 1
                             (map order_item_data (validCartItems rank st userId ids)))\<rparr>"
  shows "create_order uuid rank st userId ids addr pay =
     (if list_all (\<lambda>u. u_id u = userId \<longrightarrow>
                       (case u_totalCarbonSaved u of
                          None \<Rightarrow> True | Some t \<Rightarrow> \<bar>t + C\<bar> < 10 ^ 10))
                  (users st)
      then (Response 201 (OrderId (uuid 0)),
            st2\<lparr>users :=
                  map (\<lambda>u. if u_id u = userId
                           then u\<lparr>u_totalCarbonSaved :=
                                    map_option (\<lambda>t. t + C) (u_totalCarbonSaved u)\<rparr>
                           else u)
                      (users st),
                cartItems := filter (\<lambda>c. c_id c \<notin> set ids) (cartItems st)\<rparr>)
      else (Response 500 (Message ''Failed to create order''), st2))"
proof -
  have fits:
    "(\<lambda>u. u_id u = userId \<longrightarrow>
           (case u_totalCarbonSaved u of
              None \<Rightarrow> True
            | Some t \<Rightarrow> \<bar>numeric_round (parseFloat t + of_int C / 100)\<bar> < 10 ^ 10))
     = (\<lambda>u. u_id u = userId \<longrightarrow>
           (case u_totalCarbonSaved u of None \<Rightarrow> True | Some t \<Rightarrow> \<bar>t + C\<bar> < 10 ^ 10))"
    by (rule ext) (simp add: numeric_round_counter split: option.splits)
  show ?thesis
    using assms(1,4,6,7)
    by (simp add: create_order_def order_line_foldl sum_hundredths toString_def
        assms(2)[symmetric] assms(3)[symmetric] assms(5) assms(8) createOrder_def numeric_def
        numeric_round_hundredths createOrderItems_def updateUserCarbonSaved_def
        numeric_round_counter removeFromCart_foldl Let_def fits)
qed

subsection \<open>The cart listing\<close>

lemma cart_join_row:
  assumes "(c, p, u, r) \<in> set (cart_join st userId)"
  shows "c \<in> set (cartItems st) \<and> p \<in> set (products st) \<and> u \<in> set (users st)
         \<and> c_productId c = p_id p \<and> p_sellerId p = u_id u
         \<and> c_userId c = userId \<and> p_available p = Some True"
  using assms by (auto simp: cart_join_def split: if_splits)

lemma cart_query_row:
  assumes "(c, p, u, r) \<in> set (cart_query rank st userId)"
  shows "c \<in> set (cartItems st) \<and> p \<in> set (products st) \<and> u \<in> set (users st)
         \<and> c_productId c = p_id p \<and> p_sellerId p = u_id u
         \<and> c_userId c = userId \<and> p_available p = Some True"
  using assms cart_join_row[of c p u r st userId] by (simp add: cart_query_def)

lemma group_cart_row_inv:
  assumes m: "\<forall>(k, e) \<in> set m. R (ciw_item e) (pws_product (ciw_product e))"
      and row: "R c p"
  shows "\<forall>(k, e) \<in> set (group_cart_row m (c, p, u, r)).
           R (ciw_item e) (pws_product (ciw_product e))"
  using m row
  by (cases r) (auto simp: map_set_def map_modify_def push_review_def Let_def split: if_splits)

lemma group_cart_rows_inv:
  assumes "\<forall>(k, e) \<in> set m. R (ciw_item e) (pws_product (ciw_product e))"
      and "\<forall>(c, p, u, r) \<in> set rows. R c p"
  shows "\<forall>(k, e) \<in> set (foldl group_cart_row m rows).
           R (ciw_item e) (pws_product (ciw_product e))"
  using assms
proof (induction rows arbitrary: m)
  case Nil
  then show ?case by simp
next
  case (Cons row rows)
  obtain c p u r where row: "row = (c, p, u, r)" by (cases row) auto
  have "R c p" using Cons.prems(2) row by auto
  then have step: "\<forall>(k, e) \<in> set (group_cart_row m row). R (ciw_item e) (pws_product (ciw_product e))"
    unfolding row using Cons.prems(1) by (rule group_cart_row_inv[rotated])
  have rest: "\<forall>(c, p, u, r) \<in> set rows. R c p" using Cons.prems(2) by auto
  show ?case using Cons.IH[OF step rest] by simp
qed

lemma getCartItems_row:
  assumes "item \<in> set (getCartItems rank st userId)"
  shows "ciw_item item \<in> set (cartItems st)
       \<and> c_userId (ciw_item item) = userId
       \<and> pws_product (ciw_product item) \<in> set (products st)
       \<and> p_id (pws_product (ciw_product item)) = c_productId (ciw_item item)
       \<and> p_available (pws_product (ciw_product item)) = Some True"
proof -
  let ?R = "\<lambda>c p. c \<in> set (cartItems st) \<and> c_userId c = userId \<and> p \<in> set (products st)
                  \<and> p_id p = c_productId c \<and> p_available p = Some True"
  have "\<forall>(k, e) \<in> set (foldl group_cart_row [] (cart_query rank st userId)).
           ?R (ciw_item e) (pws_product (ciw_product e))"
    by (rule group_cart_rows_inv) (auto dest: cart_query_row)
  then show ?thesis using assms by (auto simp: getCartItems_def map_values_def)
qed

lemma concat_map_filter_neq:
  assumes "f c = []"
  shows "concat (map f (filter (\<lambda>x. x \<noteq> c) xs)) = concat (map f xs)"
  using assms by (induction xs) auto

lemma cart_join_by_row:
  "cart_join st userId =
     concat (map (\<lambda>c. cart_join (st\<lparr>cartItems := [c]\<rparr>) userId) (cartItems st))"
  by (simp add: cart_join_def cong: if_cong)

lemma cart_join_unavailable:
  assumes "\<forall>p \<in> set (products st). p_id p = c_productId c \<longrightarrow> p_available p \<noteq> Some True"
  shows "cart_join (st\<lparr>cartItems := [c]\<rparr>) userId = []"
proof (rule ccontr)
  assume "cart_join (st\<lparr>cartItems := [c]\<rparr>) userId \<noteq> []"
  then obtain row where "row \<in> set (cart_join (st\<lparr>cartItems := [c]\<rparr>) userId)"
    by (cases "cart_join (st\<lparr>cartItems := [c]\<rparr>) userId") auto
  moreover obtain c' p u r where "row = (c', p, u, r)" by (cases row) auto
  ultimately have "c' \<in> set [c] \<and> p \<in> set (products st) \<and> c_productId c' = p_id p
      \<and> p_available p = Some True"
    using cart_join_row[of c' p u r "st\<lparr>cartItems := [c]\<rparr>" userId] by auto
  then show False using assms by auto
qed

lemma cart_join_without:
  assumes "\<forall>p \<in> set (products st). p_id p = c_productId c \<longrightarrow> p_available p \<noteq> Some True"
  shows "cart_join (st\<lparr>cartItems := filter (\<lambda>x. x \<noteq> c) (cartItems st)\<rparr>) userId
           = cart_join st userId"
proof -
  have "cart_join (st\<lparr>cartItems := filter (\<lambda>x. x \<noteq> c) (cartItems st)\<rparr>) userId
      = concat (map (\<lambda>c. cart_join (st\<lparr>cartItems := [c]\<rparr>) userId)
                 (filter (\<lambda>x. x \<noteq> c) (cartItems st)))"
    by (subst cart_join_by_row) simp
  also have "\<dots> = concat (map (\<lambda>c. cart_join (st\<lparr>cartItems := [c]\<rparr>) userId) (cartItems st))"
    by (rule concat_map_filter_neq) (rule cart_join_unavailable[OF assms])
  also have "\<dots> = cart_join st userId"
    by (rule cart_join_by_row[symmetric])
  finally show ?thesis .
qed

lemma getCartItems_without:
  assumes "\<forall>p \<in> set (products st). p_id p = c_productId c \<longrightarrow> p_available p \<noteq> Some True"
  shows "getCartItems rank (st\<lparr>cartItems := filter (\<lambda>x. x \<noteq> c) (cartItems st)\<rparr>) userId
           = getCartItems rank st userId"
  by (simp add: getCartItems_def cart_query_def cart_join_without[OF assms])

text \<open>The cart table enters order placement through the selection only.\<close>

lemma create_order_depends:
  assumes same: "validCartItems rank (st\<lparr>cartItems := xs\<rparr>) userId ids
                   = validCartItems rank st userId ids"
  shows "fst (create_order uuid rank (st\<lparr>cartItems := xs\<rparr>) userId ids addr pay)
           = fst (create_order uuid rank st userId ids addr pay)
       \<and> orders (snd (create_order uuid rank (st\<lparr>cartItems := xs\<rparr>) userId ids addr pay))
           = orders (snd (create_order uuid rank st userId ids addr pay))
       \<and> orderItems (snd (create_order uuid rank (st\<lparr>cartItems := xs\<rparr>) userId ids addr pay))
           = orderItems (snd (create_order uuid rank st userId ids addr pay))"
proof (cases "validCartItems rank st userId ids = []")
  case True
  then show ?thesis using same by (simp add: create_order_def)
next
  case False
  let ?st' = "st\<lparr>cartItems := xs\<rparr>"
  define A where "A = (\<Sum>item\<leftarrow>validCartItems rank st userId ids.
                 p_price (pws_product (ciw_product item))
                   * (case c_quantity (ciw_item item) of None \<Rightarrow> 0 | Some n \<Rightarrow> n))"
  define C where "C = (\<Sum>item\<leftarrow>validCartItems rank st userId ids.
                 p_carbonSaved (pws_product (ciw_product item))
                   * (case c_quantity (ciw_item item) of None \<Rightarrow> 0 | Some n \<Rightarrow> n))"
  have ne': "validCartItems rank ?st' userId ids \<noteq> []" using False same by simp
  have A': "A = (\<Sum>item\<leftarrow>validCartItems rank ?st' userId ids.
                 p_price (pws_product (ciw_product item))
                   * (case c_quantity (ciw_item item) of None \<Rightarrow> 0 | Some n \<Rightarrow> n))"
    unfolding same A_def ..
  have C': "C = (\<Sum>item\<leftarrow>validCartItems rank ?st' userId ids.
                 p_carbonSaved (pws_product (ciw_product item))
                   * (case c_quantity (ciw_item item) of None \<Rightarrow> 0 | Some n \<Rightarrow> n))"
    unfolding same C_def ..
  show ?thesis
  proof (cases "userId \<notin> set (map u_id (users st)) \<or> addr = None
           \<or> \<not> \<bar>A\<bar> < 10 ^ 10 \<or> \<not> \<bar>C\<bar> < 10 ^ 10")
    case True
    then have "userId \<notin> set (map u_id (users ?st')) \<or> addr = None
           \<or> \<not> \<bar>A\<bar> < 10 ^ 10 \<or> \<not> \<bar>C\<bar> < 10 ^ 10"
      by simp
    then show ?thesis
      by (simp add: create_order_refused[OF False A_def C_def True]
          create_order_refused[OF ne' A' C'])
  next
    case ok: False
    then obtain address where addr: "addr = Some address" by auto
    from ok have u: "userId \<in> set (map u_id (users st))" and a: "\<bar>A\<bar> < 10 ^ 10"
      and c: "\<bar>C\<bar> < 10 ^ 10" by auto
    have u': "userId \<in> set (map u_id (users ?st'))" using u by simp
    show ?thesis
      by (simp add: create_order_inserted[OF False A_def C_def u addr a c refl]
          create_order_inserted[OF ne' A' C' u' addr a c refl] same)
  qed
qed

subsection \<open>The marketplace of the examples\<close>

lemmas example_defs = example_db_def example_seller_def example_buyer_def example_P1_def
  example_P2_def example_a_def example_b_def example_reviews_def

lemmas example2_defs = example_db2_def example_buyer2_def example_P3_def example_c_def
  example_d_def

lemmas cart_defs = getCartItems_def cart_query_def cart_join_def left_join_def map_values_def
  map_has_def map_set_def map_modify_def push_review_def table_order_def b_first_def

lemma example_cart:
  "getCartItems table_order (example_db c1 c2) ''u1'' =
     [\<lparr>ciw_item = example_a,
       ciw_product = \<lparr>pws_product = example_P1 c1, pws_seller = example_seller,
                      pws_reviews = example_reviews\<rparr>\<rparr>,
      \<lparr>ciw_item = example_b,
       ciw_product = \<lparr>pws_product = example_P2 c2, pws_seller = example_seller,
                      pws_reviews = []\<rparr>\<rparr>]"
  by (simp add: cart_defs example_defs)

text \<open>Another order of the rows gives another order of the listing.\<close>

lemma example_cart_b_first:
  "getCartItems b_first (example_db c1 c2) ''u1'' =
     [\<lparr>ciw_item = example_b,
       ciw_product = \<lparr>pws_product = example_P2 c2, pws_seller = example_seller,
                      pws_reviews = []\<rparr>\<rparr>,
      \<lparr>ciw_item = example_a,
       ciw_product = \<lparr>pws_product = example_P1 c1, pws_seller = example_seller,
                      pws_reviews = example_reviews\<rparr>\<rparr>]"
  by (simp add: cart_defs example_defs)

lemma example2_cart:
  "getCartItems table_order example_db2 ''u1'' = getCartItems table_order (example_db 300 150) ''u1''"
  unfolding example_cart by (simp add: cart_defs example_defs example2_defs)

lemma example_valid:
  "validCartItems table_order (example_db c1 c2) ''u1'' [''a'', ''b''] =
     getCartItems table_order (example_db c1 c2) ''u1''"
  unfolding validCartItems_def example_cart by (simp add: example_defs)

lemma example_valid_a:
  "validCartItems table_order (example_db c1 c2) ''u1'' [''a'', ''zz''] =
     [\<lparr>ciw_item = example_a,
       ciw_product = \<lparr>pws_product = example_P1 c1, pws_seller = example_seller,
                      pws_reviews = example_reviews\<rparr>\<rparr>]"
  unfolding validCartItems_def example_cart by (simp add: example_defs)

text \<open>
  The order of the specification's example: ids \<open>[a, b]\<close> against the cart
  \<open>{a: P1 qty 2 at 10.00, b: P2 qty 1 at 5.00}\<close>, whatever the two products save, as
  long as the sums fit their columns. The total is 25.00.
\<close>

lemma create_order_example:
  assumes "\<bar>2 * c1 + c2\<bar> < 10 ^ 10" and "\<bar>400 + (2 * c1 + c2)\<bar> < 10 ^ 10"
  shows "create_order uuid table_order (example_db c1 c2) ''u1'' [''a'', ''b''] (Some addr) pay
     = (Response 201 (OrderId (uuid 0)),
        (example_db c1 c2)
          \<lparr>orders :=
             [\<lparr>o_id = uuid 0, o_buyerId = ''u1'', o_totalAmount = 2500,
               o_status = Some confirmed, o_shippingAddress = addr,
               o_paymentIntentId = pay, o_totalCarbonSaved = Some (2 * c1 + c2)\<rparr>],
           orderItems :=
             [\<lparr>oi_id = uuid 1, oi_orderId = uuid 0, oi_productId = ''P1'', oi_sellerId = ''s1'',
               oi_price = 1000, oi_quantity = Some 2, oi_carbonSaved = Some c1\<rparr>,
              \<lparr>oi_id = uuid 2, oi_orderId = uuid 0, oi_productId = ''P2'', oi_sellerId = ''s1'',
               oi_price = 500, oi_quantity = Some 1, oi_carbonSaved = Some c2\<rparr>],
           users := [example_seller, example_buyer\<lparr>u_totalCarbonSaved := Some (400 + (2 * c1 + c2))\<rparr>],
           cartItems := []\<rparr>)"
proof -
  have ne: "validCartItems table_order (example_db c1 c2) ''u1'' [''a'', ''b''] \<noteq> []"
    by (simp add: example_valid example_cart)
  have A: "(2500 :: int) = (\<Sum>item\<leftarrow>validCartItems table_order (example_db c1 c2) ''u1'' [''a'', ''b''].
                 p_price (pws_product (ciw_product item))
                   * (case c_quantity (ciw_item item) of None \<Rightarrow> 0 | Some n \<Rightarrow> n))"
    unfolding example_valid example_cart by (simp add: example_defs)
  have C: "2 * c1 + c2 = (\<Sum>item\<leftarrow>validCartItems table_order (example_db c1 c2) ''u1'' [''a'', ''b''].
                 p_carbonSaved (pws_product (ciw_product item))
                   * (case c_quantity (ciw_item item) of None \<Rightarrow> 0 | Some n \<Rightarrow> n))"
    unfolding example_valid example_cart by (simp add: example_defs)
  have u: "''u1'' \<in> set (map u_id (users (example_db c1 c2)))"
    by (simp add: example_defs)
  have a: "\<bar>2500 :: int\<bar> < 10 ^ 10" by simp
  show ?thesis
    unfolding create_order_inserted[OF ne A C u refl a assms(1) refl] example_valid example_cart
    using assms(2)
    by (simp add: example_defs order_item_data_def enumerate_eq_zip numeral_2_eq_2)
qed

text \<open>
  With two thousand million lamps in the cart the total no longer fits \<open>decimal(10, 2)\<close>:
  the request is answered 500 and nothing is written.
\<close>

lemma create_order_overflow_example:
  "create_order uuid table_order
     ((example_db 300 150)\<lparr>cartItems := [example_a\<lparr>c_quantity := Some 2000000000\<rparr>, example_b]\<rparr>)
     ''u1'' [''a'', ''b''] (Some addr) pay
   = (Response 500 (Message ''Failed to create order''),
      (example_db 300 150)\<lparr>cartItems := [example_a\<lparr>c_quantity := Some 2000000000\<rparr>, example_b]\<rparr>)"
proof -
  define st where
    "st = (example_db 300 150)\<lparr>cartItems := [example_a\<lparr>c_quantity := Some 2000000000\<rparr>, example_b]\<rparr>"
  have valid: "validCartItems table_order st ''u1'' [''a'', ''b''] =
     [\<lparr>ciw_item = example_a\<lparr>c_quantity := Some 2000000000\<rparr>,
       ciw_product = \<lparr>pws_product = example_P1 300, pws_seller = example_seller,
                      pws_reviews = example_reviews\<rparr>\<rparr>,
      \<lparr>ciw_item = example_b,
       ciw_product = \<lparr>pws_product = example_P2 150, pws_seller = example_seller,
                      pws_reviews = []\<rparr>\<rparr>]"
    by (simp add: st_def validCartItems_def cart_defs example_defs)
  then have ne: "validCartItems table_order st ''u1'' [''a'', ''b''] \<noteq> []" by simp
  have A: "(2000000000500 :: int) = (\<Sum>item\<leftarrow>validCartItems table_order st ''u1'' [''a'', ''b''].
                 p_price (pws_product (ciw_product item))
                   * (case c_quantity (ciw_item item) of None \<Rightarrow> 0 | Some n \<Rightarrow> n))"
    unfolding valid by (simp add: example_defs)
  have big: "''u1'' \<notin> set (map u_id (users st)) \<or> Some addr = None
           \<or> \<not> \<bar>2000000000500 :: int\<bar> < 10 ^ 10 \<or> \<not> \<bar>C\<bar> < 10 ^ 10" for C :: int
    by simp
  show ?thesis
    unfolding st_def[symmetric]
    by (rule create_order_refused[OF ne A refl big])
qed

subsection \<open>Cart updates and payment intents\<close>

lemma set_quantity_stored:
  assumes "c \<in> set (map (\<lambda>c'. if c_id c' = cid then c'\<lparr>c_quantity := quantity\<rparr> else c') xs)"
      and "c_id c = cid"
  shows "c_quantity c = quantity"
proof -
  from assms(1) obtain x where c: "c = (if c_id x = cid then x\<lparr>c_quantity := quantity\<rparr> else x)"
    unfolding set_map by (rule imageE)
  show ?thesis
  proof (cases "c_id x = cid")
    case True
    then have "c = x\<lparr>c_quantity := quantity\<rparr>" by (subst c) (rule if_P)
    then show ?thesis by simp
  next
    case False
    then have "c = x" by (subst c) (rule if_not_P)
    with False assms(2) show ?thesis by simp
  qed
qed

text \<open>With a configured processor and a positive amount the call is made.\<close>

lemma create_payment_intent_calls:
  assumes "0 < a"
  shows "snd (create_payment_intent (Some client) calls userId (Some a) cartItemIds)
           = calls @ [\<lparr>pi_amount = math_round (a * 100), pi_currency = ''usd'',
                        pi_userId = userId, pi_cartItemIds = cartItemIds\<rparr>]"
  using assms
  by (simp add: create_payment_intent_def Let_def split: sum.splits)

text \<open>The four ways an order-placement request can end.\<close>

lemma create_order_outcome:
  obtains
    (empty) "validCartItems rank st userId ids = []"
      and "create_order uuid rank st userId ids addr pay
             = (Response 400 (Message ''No valid cart items found''), st)"
  | (refused) "validCartItems rank st userId ids \<noteq> []"
      and "create_order uuid rank st userId ids addr pay
             = (Response 500 (Message ''Failed to create order''), st)"
  | (partial) order items where "validCartItems rank st userId ids \<noteq> []"
      and "create_order uuid rank st userId ids addr pay
             = (Response 500 (Message ''Failed to create order''),
                st\<lparr>orders := orders st @ [order], orderItems := orderItems st @ items\<rparr>)"
  | (placed) order items where "validCartItems rank st userId ids \<noteq> []"
      and "create_order uuid rank st userId ids addr pay
             = (Response 201 (OrderId (uuid 0)),
                st\<lparr>orders := orders st @ [order], orderItems := orderItems st @ items,
                   users :=
                     map (\<lambda>u. if u_id u = userId
                              then u\<lparr>u_totalCarbonSaved :=
                                       map_option
                                         (\<lambda>t. t + (\<Sum>item\<leftarrow>validCartItems rank st userId ids.
                                                     p_carbonSaved (pws_product (ciw_product item))
                                                       * (case c_quantity (ciw_item item) of
                                                            None \<Rightarrow> 0 | Some n \<Rightarrow> n)))
                                         (u_totalCarbonSaved u)\<rparr>
                              else u)
                         (users st),
                   cartItems := filter (\<lambda>c. c_id c \<notin> set ids) (cartItems st)\<rparr>)"
proof -
  define A where "A = (\<Sum>item\<leftarrow>validCartItems rank st userId ids.
                 p_price (pws_product (ciw_product item))
                   * (case c_quantity (ciw_item item) of None \<Rightarrow> 0 | Some n \<Rightarrow> n))"
  define C where "C = (\<Sum>item\<leftarrow>validCartItems rank st userId ids.
                 p_carbonSaved (pws_product (ciw_product item))
                   * (case c_quantity (ciw_item item) of None \<Rightarrow> 0 | Some n \<Rightarrow> n))"
  show thesis
  proof (cases "validCartItems rank st userId ids = []")
    case True
    then have "create_order uuid rank st userId ids addr pay
             = (Response 400 (Message ''No valid cart items found''), st)"
      by (simp add: create_order_def)
    with True show thesis by (rule empty)
  next
    case ne: False
    show thesis
    proof (cases "userId \<notin> set (map u_id (users st)) \<or> addr = None
           \<or> \<not> \<bar>A\<bar> < 10 ^ 10 \<or> \<not> \<bar>C\<bar> < 10 ^ 10")
      case True
      have "create_order uuid rank st userId ids addr pay
           = (Response 500 (Message ''Failed to create order''), st)"
        using ne A_def C_def True by (rule create_order_refused)
      with ne show thesis by (rule refused)
    next
      case False
      then have u: "userId \<in> set (map u_id (users st))" and a: "\<bar>A\<bar> < 10 ^ 10"
        and c: "\<bar>C\<bar> < 10 ^ 10"
        by simp_all
      from False obtain address where addr: "addr = Some address"
        by (cases addr) simp_all
      define order where "order = \<lparr>o_id = uuid 0, o_buyerId = userId, o_totalAmount = A,
                        o_status = Some confirmed, o_shippingAddress = address,
                        o_paymentIntentId = pay, o_totalCarbonSaved = Some C\<rparr>"
      define items where "items =
                      map (\<lambda>(k, item). item\<lparr>oi_id := uuid k, oi_orderId := uuid 0\<rparr>)
                          (enumerate 1
                             (map order_item_data (validCartItems rank st userId ids)))"
      define st2 where "st2 = st\<lparr>orders := orders st @ [order],
                                 orderItems := orderItems st @ items\<rparr>"
      have st2: "st2 = st\<lparr>orders := orders st @
                      [\<lparr>o_id = uuid 0, o_buyerId = userId, o_totalAmount = A,
                        o_status = Some confirmed, o_shippingAddress = address,
                        o_paymentIntentId = pay, o_totalCarbonSaved = Some C\<rparr>],
                    orderItems := orderItems st @
                      map (\<lambda>(k, item). item\<lparr>oi_id := uuid k, oi_orderId := uuid 0\<rparr>)
                          (enumerate 1
                             (map order_item_data (validCartItems rank st userId ids)))\<rparr>"
        unfolding st2_def order_def items_def ..
      note result = create_order_inserted[OF ne A_def C_def u addr a c st2]
      show thesis
      proof (cases "list_all (\<lambda>u. u_id u = userId \<longrightarrow>
                       (case u_totalCarbonSaved u of
                          None \<Rightarrow> True | Some t \<Rightarrow> \<bar>t + C\<bar> < 10 ^ 10))
                  (users st)")
        case True
        have "create_order uuid rank st userId ids addr pay
             = (Response 201 (OrderId (uuid 0)),
                st\<lparr>orders := orders st @ [order], orderItems := orderItems st @ items,
                   users :=
                     map (\<lambda>u. if u_id u = userId
                              then u\<lparr>u_totalCarbonSaved :=
                                       map_option (\<lambda>t. t + C) (u_totalCarbonSaved u)\<rparr>
                              else u)
                         (users st),
                   cartItems := filter (\<lambda>c. c_id c \<notin> set ids) (cartItems st)\<rparr>)"
          unfolding result using True by (simp add: st2_def)
        then show thesis
          unfolding C_def using ne by (intro placed)
      next
        case False
        have "create_order uuid rank st userId ids addr pay
             = (Response 500 (Message ''Failed to create order''),
                st\<lparr>orders := orders st @ [order], orderItems := orderItems st @ items\<rparr>)"
          unfolding result using False by (simp add: st2_def)
        with ne show thesis by (rule partial)
      qed
    qed
  qed
qed

subsection \<open>Product views\<close>

lemma left_join_nonempty: "left_join rs \<noteq> []"
  by (simp add: left_join_def)

lemma bex_map_preserved:
  assumes "\<And>x. P (f x) = P x"
  shows "(\<exists>y \<in> set (map f xs). P y) = (\<exists>x \<in> set xs. P x)"
  by (induction xs) (simp_all add: assms)

text \<open>A product is found when its row and the row of its seller are there.\<close>

lemma getProduct_None_iff:
  "getProduct st pid = None \<longleftrightarrow>
     \<not> (\<exists>p \<in> set (products st). p_id p = pid \<and> (\<exists>u \<in> set (users st). p_sellerId p = u_id u))"
proof -
  define result where "result =
         [(p, u, r).
           p \<leftarrow> products st,
           u \<leftarrow> users st, p_sellerId p = u_id u,
           r \<leftarrow> left_join [r \<leftarrow> reviews st. p_id p = r_productId r],
           p_id p = pid]"
  have mem: "(p, u, r) \<in> set result \<longleftrightarrow>
      p \<in> set (products st) \<and> u \<in> set (users st) \<and> p_sellerId p = u_id u
      \<and> r \<in> set (left_join [r \<leftarrow> reviews st. p_id p = r_productId r]) \<and> p_id p = pid"
    for p u r
    unfolding result_def by (auto split: if_splits)
  have "result \<noteq> [] \<longleftrightarrow>
     (\<exists>p \<in> set (products st). p_id p = pid \<and> (\<exists>u \<in> set (users st). p_sellerId p = u_id u))"
  proof
    assume "result \<noteq> []"
    then obtain row where "row \<in> set result" by (cases result) auto
    moreover obtain p u r where "row = (p, u, r)" by (cases row) auto
    ultimately have "(p, u, r) \<in> set result" by simp
    then show "\<exists>p \<in> set (products st). p_id p = pid \<and> (\<exists>u \<in> set (users st). p_sellerId p = u_id u)"
      unfolding mem by blast
  next
    assume "\<exists>p \<in> set (products st). p_id p = pid \<and> (\<exists>u \<in> set (users st). p_sellerId p = u_id u)"
    then obtain p u where pu: "p \<in> set (products st)" "p_id p = pid" "u \<in> set (users st)"
        "p_sellerId p = u_id u"
      by blast
    obtain r where "r \<in> set (left_join [r \<leftarrow> reviews st. p_id p = r_productId r])"
      using left_join_nonempty[of "[r \<leftarrow> reviews st. p_id p = r_productId r]"]
      by (cases "left_join [r \<leftarrow> reviews st. p_id p = r_productId r]") auto
    with pu have "(p, u, r) \<in> set result" unfolding mem by blast
    then show "result \<noteq> []" by auto
  qed
  moreover have "getProduct st pid = None \<longleftrightarrow> result = []"
    unfolding getProduct_def result_def[symmetric]
    by (simp add: Let_def split: list.splits prod.splits)
  ultimately show ?thesis by blast
qed

text \<open>The rows of a product after a fetch that went through.\<close>

lemma incrementProductViews_fit:
  assumes "views_fit st pid 1"
  shows "incrementProductViews st pid =
     Inr (st\<lparr>products :=
               map (\<lambda>p. if p_id p = pid
                        then p\<lparr>p_views := map_option (\<lambda>v. v + 1) (p_views p)\<rparr>
                        else p)
                   (products st)\<rparr>)"
proof -
  have "list_all (\<lambda>p. p_id p = pid \<longrightarrow> int4_or_null (map_option (\<lambda>v. v + 1) (p_views p))) ps"
    if "list_all (\<lambda>p. p_id p = pid \<longrightarrow>
                    (case p_views p of None \<Rightarrow> True | Some v \<Rightarrow> int4 v \<and> int4 (v + 1))) ps"
    for ps
    using that by (induction ps) (auto simp: int4_or_null_def split: option.splits)
  then show ?thesis
    using assms by (simp add: incrementProductViews_def views_fit_def)
qed

lemma incrementProductViews_full:
  assumes "p \<in> set (products st)" and "p_id p = pid" and "p_views p = Some 2147483647"
  shows "incrementProductViews st pid = Inl OutOfRange"
proof -
  have "\<not> (p_id p = pid \<longrightarrow> int4_or_null (map_option (\<lambda>v. v + 1) (p_views p)))"
    using assms(2,3) by (simp add: int4_or_null_def int4_def)
  with assms(1) have
    "\<not> list_all (\<lambda>p. p_id p = pid \<longrightarrow> int4_or_null (map_option (\<lambda>v. v + 1) (p_views p)))
         (products st)"
    unfolding list_all_iff by (rule_tac notI) (drule (1) bspec, erule notE, assumption)
  then show ?thesis
    by (simp add: incrementProductViews_def)
qed

lemma getProduct_after_views:
  "getProduct (st\<lparr>products :=
               map (\<lambda>p. if p_id p = pid'
                        then p\<lparr>p_views := map_option (\<lambda>v. v + 1) (p_views p)\<rparr>
                        else p)
                   (products st)\<rparr>) pid = None
     \<longleftrightarrow> getProduct st pid = None"
proof -
  have "(\<exists>p \<in> set (map (\<lambda>p. if p_id p = pid'
                   then p\<lparr>p_views := map_option (\<lambda>v. v + 1) (p_views p)\<rparr>
                   else p) (products st)).
            p_id p = pid \<and> (\<exists>u \<in> set (users st). p_sellerId p = u_id u))
     \<longleftrightarrow> (\<exists>p \<in> set (products st). p_id p = pid \<and> (\<exists>u \<in> set (users st). p_sellerId p = u_id u))"
    by (rule bex_map_preserved) simp
  then show ?thesis
    by (simp add: getProduct_None_iff)
qed

lemma add_views_twice:
  "(\<lambda>p. if p_id p = pid then p\<lparr>p_views := map_option (\<lambda>v. v + int n) (p_views p)\<rparr> else p)
     \<circ> (\<lambda>p. if p_id p = pid then p\<lparr>p_views := map_option (\<lambda>v. v + 1) (p_views p)\<rparr> else p)
   = (\<lambda>p. if p_id p = pid then p\<lparr>p_views := map_option (\<lambda>v. v + int (Suc n)) (p_views p)\<rparr>
           else p)"
  by (rule ext) (simp add: option.map_comp comp_def add.commute add.left_commute)

lemma views_fit_first:
  assumes "views_fit st pid (int (Suc n))"
  shows "views_fit st pid 1"
proof -
  have step: "list_all (\<lambda>p. p_id p = pid \<longrightarrow>
                    (case p_views p of None \<Rightarrow> True | Some v \<Rightarrow> int4 v \<and> int4 (v + 1))) ps"
    if "list_all (\<lambda>p. p_id p = pid \<longrightarrow>
                    (case p_views p of None \<Rightarrow> True
                     | Some v \<Rightarrow> int4 v \<and> int4 (v + int (Suc n)))) ps"
    for ps
    using that by (induction ps) (auto simp: int4_def split: option.splits)
  from assms have "list_all (\<lambda>p. p_id p = pid \<longrightarrow>
                    (case p_views p of None \<Rightarrow> True
                     | Some v \<Rightarrow> int4 v \<and> int4 (v + int (Suc n)))) (products st)"
    unfolding views_fit_def .
  then show ?thesis
    unfolding views_fit_def by (rule step)
qed

lemma views_fit_rest:
  assumes "views_fit st pid (int (Suc n))"
  shows "views_fit (st\<lparr>products :=
               map (\<lambda>p. if p_id p = pid
                        then p\<lparr>p_views := map_option (\<lambda>v. v + 1) (p_views p)\<rparr>
                        else p)
                   (products st)\<rparr>) pid (int n)"
proof -
  have step: "list_all (\<lambda>p. p_id p = pid \<longrightarrow>
                    (case p_views p of None \<Rightarrow> True | Some v \<Rightarrow> int4 v \<and> int4 (v + int n)))
          (map (\<lambda>p. if p_id p = pid
                        then p\<lparr>p_views := map_option (\<lambda>v. v + 1) (p_views p)\<rparr>
                        else p) ps)"
    if "list_all (\<lambda>p. p_id p = pid \<longrightarrow>
                    (case p_views p of None \<Rightarrow> True
                     | Some v \<Rightarrow> int4 v \<and> int4 (v + int (Suc n)))) ps"
    for ps
    using that by (induction ps) (auto simp: int4_def split: option.splits)
  from assms have "list_all (\<lambda>p. p_id p = pid \<longrightarrow>
                    (case p_views p of None \<Rightarrow> True
                     | Some v \<Rightarrow> int4 v \<and> int4 (v + int (Suc n)))) (products st)"
    unfolding views_fit_def .
  then have "list_all (\<lambda>p. p_id p = pid \<longrightarrow>
                    (case p_views p of None \<Rightarrow> True | Some v \<Rightarrow> int4 v \<and> int4 (v + int n)))
          (map (\<lambda>p. if p_id p = pid
                        then p\<lparr>p_views := map_option (\<lambda>v. v + 1) (p_views p)\<rparr>
                        else p) (products st))"
    by (rule step)
  then show ?thesis
    unfolding views_fit_def by simp
qed

lemma fetches_views:
  assumes "getProduct st pid \<noteq> None" and "views_fit st pid (int n)"
  shows "fetches n st pid =
     st\<lparr>products :=
          map (\<lambda>p. if p_id p = pid
                   then p\<lparr>p_views := map_option (\<lambda>v. v + int n) (p_views p)\<rparr>
                   else p)
              (products st)\<rparr>"
  using assms
proof (induction n arbitrary: st)
  case 0
  have same: "(\<lambda>p. if p_id p = pid then p\<lparr>p_views := map_option (\<lambda>v. v + int 0) (p_views p)\<rparr> else p)
          = (\<lambda>p. p)"
    by (rule ext) (simp add: option.map_ident)
  have "map (\<lambda>p. if p_id p = pid
                   then p\<lparr>p_views := map_option (\<lambda>v. v + int 0) (p_views p)\<rparr>
                   else p)
              (products st) = products st"
    unfolding same by (rule list.map_ident)
  then show ?case
    unfolding fetches.simps by simp
next
  case (Suc n)
  define st1 where "st1 = st\<lparr>products :=
               map (\<lambda>p. if p_id p = pid
                        then p\<lparr>p_views := map_option (\<lambda>v. v + 1) (p_views p)\<rparr>
                        else p)
                   (products st)\<rparr>"
  have found: "getProduct st1 pid \<noteq> None"
    unfolding st1_def getProduct_after_views by (rule Suc.prems(1))
  have fit: "views_fit st1 pid (int n)"
    unfolding st1_def using Suc.prems(2) by (rule views_fit_rest)
  have step: "incrementProductViews st pid = Inr st1"
    unfolding st1_def using Suc.prems(2) by (intro incrementProductViews_fit views_fit_first)
  from Suc.prems(1) obtain product where "getProduct st pid = Some product"
    by (cases "getProduct st pid") simp_all
  then have "snd (get_product st pid) = st1"
    by (simp add: get_product_def step)
  then have "fetches (Suc n) st pid = fetches n st1 pid"
    by simp
  also have "\<dots> = st1\<lparr>products :=
          map (\<lambda>p. if p_id p = pid
                   then p\<lparr>p_views := map_option (\<lambda>v. v + int n) (p_views p)\<rparr>
                   else p)
              (products st1)\<rparr>"
    using found fit by (rule Suc.IH)
  also have "\<dots> = st\<lparr>products :=
          map (\<lambda>p. if p_id p = pid
                   then p\<lparr>p_views := map_option (\<lambda>v. v + int (Suc n)) (p_views p)\<rparr>
                   else p)
              (products st)\<rparr>"
  proof -
    have "products st1 =
        map (\<lambda>p. if p_id p = pid then p\<lparr>p_views := map_option (\<lambda>v. v + 1) (p_views p)\<rparr> else p)
            (products st)"
      by (simp add: st1_def)
    then have "map (\<lambda>p. if p_id p = pid
                   then p\<lparr>p_views := map_option (\<lambda>v. v + int n) (p_views p)\<rparr>
                   else p)
              (products st1)
        = map (\<lambda>p. if p_id p = pid
                   then p\<lparr>p_views := map_option (\<lambda>v. v + int (Suc n)) (p_views p)\<rparr>
                   else p)
              (products st)"
      by (simp only: map_map add_views_twice)
    then show ?thesis
      by (simp add: st1_def)
  qed
  finally show ?case .
qed

lemma views_row_incremented:
  assumes "p \<in> set ps" and "p_id p = pid" and "p_views p = Some v"
  shows "p\<lparr>p_views := Some (v + 1)\<rparr>
           \<in> set (map (\<lambda>p. if p_id p = pid
                          then p\<lparr>p_views := map_option (\<lambda>v. v + 1) (p_views p)\<rparr>
                          else p) ps)"
proof -
  let ?f = "\<lambda>p. if p_id p = pid
                then p\<lparr>p_views := map_option (\<lambda>v. v + 1) (p_views p)\<rparr> else p"
  have "?f p = p\<lparr>p_views := Some (v + 1)\<rparr>"
    using assms(2,3) by simp
  moreover have "?f p \<in> set (map ?f ps)"
    unfolding set_map using assms(1) by (rule imageI)
  ultimately show ?thesis by (simp only:)
qed

text \<open>No fetch lowers a counter, whether it goes through or not.\<close>

lemma views_kept: "views_kept_or_grown p p"
  by (cases "p_views p") (simp_all add: views_kept_or_grown_def)

lemma views_kept_or_grown_trans:
  assumes "views_kept_or_grown p q" and "views_kept_or_grown q r"
  shows "views_kept_or_grown p r"
  using assms
  by (cases "p_views p"; cases "p_views q"; cases "p_views r")
     (simp_all add: views_kept_or_grown_def)

lemma views_after_increment:
  "list_all2 views_kept_or_grown ps
     (map (\<lambda>p. if p_id p = pid
               then p\<lparr>p_views := map_option (\<lambda>v. v + 1) (p_views p)\<rparr>
               else p) ps)"
proof (induction ps)
  case Nil
  show ?case by simp
next
  case (Cons p ps)
  have "views_kept_or_grown p (p\<lparr>p_views := map_option (\<lambda>v. v + 1) (p_views p)\<rparr>)"
    by (cases "p_views p") (simp_all add: views_kept_or_grown_def)
  then have "views_kept_or_grown p
          (if p_id p = pid
           then p\<lparr>p_views := map_option (\<lambda>v. v + 1) (p_views p)\<rparr>
           else p)"
    using views_kept[of p] by (cases "p_id p = pid") simp_all
  with Cons.IH show ?case by (simp only: list.map list_all2_Cons)
qed

lemma get_product_views:
  "list_all2 views_kept_or_grown (products st) (products (snd (get_product st pid)))"
proof -
  have same: "list_all2 views_kept_or_grown (products st) (products st)"
    by (simp add: list_all2_same views_kept)
  show ?thesis
    using same views_after_increment[of "products st" pid]
    by (simp add: get_product_def incrementProductViews_def split: option.splits)
qed

lemma fetches_views_kept_or_grown:
  "list_all2 views_kept_or_grown (products st) (products (fetches n st pid))"
proof (induction n arbitrary: st)
  case 0
  show ?case by (simp add: list_all2_same views_kept)
next
  case (Suc n)
  have first: "list_all2 views_kept_or_grown (products st) (products (snd (get_product st pid)))"
    by (rule get_product_views)
  have rest: "list_all2 views_kept_or_grown (products (snd (get_product st pid)))
                (products (fetches n (snd (get_product st pid)) pid))"
    by (rule Suc.IH)
  have "list_all2 views_kept_or_grown (products st)
                (products (fetches n (snd (get_product st pid)) pid))"
    using views_kept_or_grown_trans first rest by (rule list_all2_trans)
  then show ?case by simp
qed

lemma createProduct_defaults:
  assumes "createProduct uuid st ins = Inr (newProduct, st')"
  shows "p_views newProduct = Some 0
       \<and> (ip_available ins = None \<longrightarrow> p_available newProduct = Some True)
       \<and> products st' = products st @ [newProduct]"
  using assms
  by (auto simp: createProduct_def numeric_def Let_def split: if_splits sum.splits)

lemma example_getProduct:
  "getProduct (example_db c1 c2) ''P2'' =
     Some \<lparr>pws_product = example_P2 c2, pws_seller = example_seller, pws_reviews = []\<rparr>"
  by (simp add: getProduct_def left_join_def List.map_filter_def example_defs)

lemma example_getProduct_absent: "getProduct (example_db c1 c2) ''P9'' = None"
  by (simp add: getProduct_def left_join_def List.map_filter_def example_defs)

text \<open>
  The largest counter is reached by fetches alone: 2147483647 of them, from 0. The next
  fetch of that product is refused.
\<close>

lemma views_full_reachable:
  "fetches 2147483647 (example_db c1 c2) ''P1'' =
     (example_db c1 c2)
       \<lparr>products := [(example_P1 c1)\<lparr>p_views := Some 2147483647\<rparr>, example_P2 c2]\<rparr>"
proof -
  have found: "getProduct (example_db c1 c2) ''P1'' \<noteq> None"
    by (simp add: getProduct_def left_join_def List.map_filter_def example_defs)
  have fit: "views_fit (example_db c1 c2) ''P1'' (int 2147483647)"
    by (simp add: views_fit_def int4_def example_defs)
  show ?thesis
    unfolding fetches_views[OF found fit] by (simp add: example_defs)
qed

lemma views_full_refused:
  "get_product (fetches 2147483647 (example_db c1 c2) ''P1'') ''P1''
     = (Response 500 (Message ''Failed to fetch product''),
        fetches 2147483647 (example_db c1 c2) ''P1'')"
  unfolding views_full_reachable
  by (simp add: get_product_def getProduct_def incrementProductViews_def int4_or_null_def
      int4_def left_join_def List.map_filter_def example_defs)

subsection \<open>What a request does to the orders, to the users and to the view counters\<close>

lemma route_effect_orders:
  "\<exists>newOrders newItems.
      orders (route_effect uuid rank st req) = orders st @ newOrders
    \<and> orderItems (route_effect uuid rank st req) = orderItems st @ newItems"
proof (cases req)
  case (GetProduct pid)
  then show ?thesis
    by (simp add: get_product_def incrementProductViews_def split: option.splits)
next
  case (PostProduct userId parsed)
  then show ?thesis
    by (simp add: createProduct_def state_after_def numeric_def Let_def split: option.splits)
next
  case (PostReview userId pid parsed)
  then show ?thesis
    by (simp add: createReview_def state_after_def Let_def split: option.splits)
next
  case (PostCart userId productId quantity)
  then show ?thesis
    by (simp add: addToCart_def state_after_def Let_def)
next
  case (PutCart cid quantity)
  then show ?thesis
    by (simp add: put_cart_def updateCartItem_def Let_def)
next
  case (DeleteCart cid)
  then show ?thesis
    by (simp add: delete_cart_def removeFromCart_def)
next
  case (CreateOrder userId ids addr pay)
  have "\<exists>newOrders newItems.
      orders (snd (create_order uuid rank st userId ids addr pay)) = orders st @ newOrders
    \<and> orderItems (snd (create_order uuid rank st userId ids addr pay)) = orderItems st @ newItems"
  proof (cases rule: create_order_outcome[of rank st userId ids uuid addr pay])
    case empty
    then show ?thesis by simp
  next
    case refused
    then show ?thesis by simp
  next
    case (partial order items)
    then show ?thesis by simp
  next
    case (placed order items)
    then show ?thesis by simp
  qed
  then show ?thesis
    unfolding CreateOrder route_effect.simps .
qed simp_all


text \<open>
  A view counter that is not \<open>NULL\<close> is not made \<open>NULL\<close> by a request, and a product
  that a request creates has the counter 0.
\<close>

lemma views_not_null_after_increment:
  assumes "list_all (\<lambda>p. p_views p \<noteq> None) ps"
  shows "list_all (\<lambda>p. p_views p \<noteq> None)
           (map (\<lambda>p. if p_id p = pid
                     then p\<lparr>p_views := map_option (\<lambda>v. v + 1) (p_views p)\<rparr>
                     else p) ps)"
  using assms by (induction ps) auto

lemma route_effect_views_not_null:
  assumes "list_all (\<lambda>p. p_views p \<noteq> None) (products st)"
  shows "list_all (\<lambda>p. p_views p \<noteq> None) (products (route_effect uuid rank st req))"
proof (cases req)
  case (GetProduct pid)
  then show ?thesis
    using assms views_not_null_after_increment[OF assms, of pid]
    by (simp add: get_product_def incrementProductViews_def split: option.splits)
next
  case (PostProduct userId parsed)
  then show ?thesis
    using assms
    by (simp add: createProduct_def state_after_def numeric_def Let_def split: option.splits)
next
  case (PostReview userId pid parsed)
  then show ?thesis
    using assms by (simp add: createReview_def state_after_def Let_def split: option.splits)
next
  case (PostCart userId productId quantity)
  then show ?thesis
    using assms by (simp add: addToCart_def state_after_def Let_def)
next
  case (PutCart cid quantity)
  then show ?thesis
    using assms by (simp add: put_cart_def updateCartItem_def Let_def)
next
  case (DeleteCart cid)
  then show ?thesis
    using assms by (simp add: delete_cart_def removeFromCart_def)
next
  case (CreateOrder userId ids addr pay)
  have "products (snd (create_order uuid rank st userId ids addr pay)) = products st"
  proof (cases rule: create_order_outcome[of rank st userId ids uuid addr pay])
    case empty
    then show ?thesis by simp
  next
    case refused
    then show ?thesis by simp
  next
    case (partial order items)
    then show ?thesis by simp
  next
    case (placed order items)
    then show ?thesis by simp
  qed
  then show ?thesis
    unfolding CreateOrder route_effect.simps using assms by simp
qed (insert assms, simp_all)








text \<open>
  The proviso of a non-negative total is not kept by the handlers themselves: a cart
  update may store a negative quantity, and the order placed from it lowers the counter.
\<close>

lemma carbon_counter_negative_quantity_example:
  "map u_totalCarbonSaved
     (users (route_effect uuid table_order
        (route_effect uuid table_order (example_db 300 150) (PutCart ''a'' (Some (- 2))))
        (CreateOrder ''u1'' [''a''] (Some addr) pay)))
   = [Some 0, Some (- 200)]"
proof -
  define st1 where
    "st1 = route_effect uuid table_order (example_db 300 150) (PutCart ''a'' (Some (- 2)))"
  have st1: "st1 = (example_db 300 150)\<lparr>cartItems := [example_a\<lparr>c_quantity := Some (- 2)\<rparr>, example_b]\<rparr>"
    by (simp add: st1_def put_cart_def updateCartItem_def int4_or_null_def int4_def Let_def
        example_defs)
  have cart: "getCartItems table_order st1 ''u1'' =
     [\<lparr>ciw_item = example_a\<lparr>c_quantity := Some (- 2)\<rparr>,
       ciw_product = \<lparr>pws_product = example_P1 300, pws_seller = example_seller,
                      pws_reviews = example_reviews\<rparr>\<rparr>,
      \<lparr>ciw_item = example_b,
       ciw_product = \<lparr>pws_product = example_P2 150, pws_seller = example_seller,
                      pws_reviews = []\<rparr>\<rparr>]"
    unfolding st1 by (simp add: cart_defs example_defs)
  have valid: "validCartItems table_order st1 ''u1'' [''a''] =
     [\<lparr>ciw_item = example_a\<lparr>c_quantity := Some (- 2)\<rparr>,
       ciw_product = \<lparr>pws_product = example_P1 300, pws_seller = example_seller,
                      pws_reviews = example_reviews\<rparr>\<rparr>]"
    unfolding validCartItems_def cart by (simp add: example_defs)
  have ne: "validCartItems table_order st1 ''u1'' [''a''] \<noteq> []"
    unfolding valid by simp
  have A: "(- 2000 :: int) = (\<Sum>item\<leftarrow>validCartItems table_order st1 ''u1'' [''a''].
                 p_price (pws_product (ciw_product item))
                   * (case c_quantity (ciw_item item) of None \<Rightarrow> 0 | Some n \<Rightarrow> n))"
    unfolding valid by (simp add: example_defs)
  have C: "(- 600 :: int) = (\<Sum>item\<leftarrow>validCartItems table_order st1 ''u1'' [''a''].
                 p_carbonSaved (pws_product (ciw_product item))
                   * (case c_quantity (ciw_item item) of None \<Rightarrow> 0 | Some n \<Rightarrow> n))"
    unfolding valid by (simp add: example_defs)
  have u: "''u1'' \<in> set (map u_id (users st1))"
    unfolding st1 by (simp add: example_defs)
  have a: "\<bar>- 2000 :: int\<bar> < 10 ^ 10" by simp
  have c: "\<bar>- 600 :: int\<bar> < 10 ^ 10" by simp
  have "map u_totalCarbonSaved
          (users (snd (create_order uuid table_order st1 ''u1'' [''a''] (Some addr) pay)))
      = [Some 0, Some (- 200)]"
    unfolding create_order_inserted[OF ne A C u refl a c refl]
    by (simp add: st1 example_defs)
  then show ?thesis
    unfolding st1_def by simp
qed

subsection \<open>The rows of a new order\<close>




section \<open>The properties of the specification\<close>



text \<open>
  C2. When no id of the request is the id of an item of the caller's cart listing, order
  placement answers 400, a client error, and returns the state as it was: no order, no
  order item, no change of a carbon counter, no cart row deleted.
\<close>

theorem create_order_empty_selection:
  assumes "set cartItemIds
             \<inter> set (map (\<lambda>item. c_id (ciw_item item)) (getCartItems rank st userId)) = {}"
  shows "create_order uuid rank st userId cartItemIds addr pay
           = (Response 400 (Message ''No valid cart items found''), st)
         \<and> client_error (fst (create_order uuid rank st userId cartItemIds addr pay))"
proof -
  have "validCartItems rank st userId cartItemIds = []"
    using assms by (auto simp: validCartItems_def filter_empty_conv)
  then show ?thesis
    by (simp add: create_order_def client_error_def)
qed

theorem create_order_empty_selection_witness:
  "set [''c'', ''d'']
     \<inter> set (map (\<lambda>item. c_id (ciw_item item)) (getCartItems table_order example_db2 ''u1'')) = {}
   \<and> create_order example_uuid table_order example_db2 ''u1'' [''c'', ''d'']
         (Some ''1 Green Lane'') None
       = (Response 400 (Message ''No valid cart items found''), example_db2)
   \<and> client_error (fst (create_order example_uuid table_order example_db2 ''u1'' [''c'', ''d'']
                          (Some ''1 Green Lane'') None))"
proof -
  have disjoint:
    "set [''c'', ''d'']
       \<inter> set (map (\<lambda>item. c_id (ciw_item item)) (getCartItems table_order example_db2 ''u1'')) = {}"
    unfolding example2_cart example_cart by (simp add: example_defs)
  show ?thesis
    by (rule conjI[OF disjoint]) (rule create_order_empty_selection[OF disjoint])
qed

text \<open>
  C3, as the code has it. The cart update stores the quantity of the request in every cart
  row with the given id and leaves the other rows alone, whenever that quantity is
  \<^verbatim>\<open>null\<close> or fits the 32-bit integer column; it checks no lower bound. A quantity
  that does not fit the column is answered 500 and nothing is stored. The bound of 1 is
  kept by the cart page: the quantity its input field sends and the quantity its buttons
  send are at least 1.
\<close>

theorem put_cart_stores_quantity:
  "(int4_or_null quantity \<longrightarrow>
      status (fst (put_cart st cid quantity)) = 200
    \<and> map c_id (cartItems (snd (put_cart st cid quantity))) = map c_id (cartItems st)
    \<and> (\<forall>c \<in> set (cartItems (snd (put_cart st cid quantity))).
          c_id c = cid \<longrightarrow> c_quantity c = quantity)
    \<and> (\<forall>c \<in> set (cartItems st).
          c_id c \<noteq> cid \<longrightarrow> c \<in> set (cartItems (snd (put_cart st cid quantity)))))
   \<and> (\<not> int4_or_null quantity \<longrightarrow>
        put_cart st cid quantity = (Response 500 (Message ''Failed to update cart item''), st))
   \<and> 1 \<le> inputQuantity parsed
   \<and> (\<forall>n. updateQuantity currentQuantity change = Some n \<longrightarrow> 1 \<le> n)"
proof -
  let ?rows = "map (\<lambda>c. if c_id c = cid then c\<lparr>c_quantity := quantity\<rparr> else c) (cartItems st)"
  have "map c_id (map (\<lambda>c. if c_id c = cid then c\<lparr>c_quantity := quantity\<rparr> else c) xs)
          = map c_id xs" for xs
    by (induction xs) simp_all
  then have ids: "map c_id ?rows = map c_id (cartItems st)" .
  have stored: "\<forall>c \<in> set ?rows. c_id c = cid \<longrightarrow> c_quantity c = quantity"
    by (intro ballI impI) (rule set_quantity_stored)
  have others: "\<forall>c \<in> set (cartItems st). c_id c \<noteq> cid \<longrightarrow> c \<in> set ?rows"
    by force
  have accepted: "int4_or_null quantity \<longrightarrow>
      status (fst (put_cart st cid quantity)) = 200
    \<and> map c_id (cartItems (snd (put_cart st cid quantity))) = map c_id (cartItems st)
    \<and> (\<forall>c \<in> set (cartItems (snd (put_cart st cid quantity))).
          c_id c = cid \<longrightarrow> c_quantity c = quantity)
    \<and> (\<forall>c \<in> set (cartItems st).
          c_id c \<noteq> cid \<longrightarrow> c \<in> set (cartItems (snd (put_cart st cid quantity))))"
  proof
    assume fits: "int4_or_null quantity"
    have rows: "cartItems (snd (put_cart st cid quantity)) = ?rows"
      using fits by (simp add: put_cart_def updateCartItem_def Let_def)
    have ok: "status (fst (put_cart st cid quantity)) = 200"
      using fits by (simp add: put_cart_def updateCartItem_def Let_def)
    show "status (fst (put_cart st cid quantity)) = 200
      \<and> map c_id (cartItems (snd (put_cart st cid quantity))) = map c_id (cartItems st)
      \<and> (\<forall>c \<in> set (cartItems (snd (put_cart st cid quantity))).
            c_id c = cid \<longrightarrow> c_quantity c = quantity)
      \<and> (\<forall>c \<in> set (cartItems st).
            c_id c \<noteq> cid \<longrightarrow> c \<in> set (cartItems (snd (put_cart st cid quantity))))"
      unfolding rows by (intro conjI ok ids stored others)
  qed
  have refused: "\<not> int4_or_null quantity \<longrightarrow>
        put_cart st cid quantity = (Response 500 (Message ''Failed to update cart item''), st)"
    by (simp add: put_cart_def updateCartItem_def)
  have input: "1 \<le> inputQuantity parsed"
    by (simp add: inputQuantity_def)
  have buttons: "\<forall>n. updateQuantity currentQuantity change = Some n \<longrightarrow> 1 \<le> n"
    by (auto simp: updateQuantity_def Let_def split: if_splits)
  show ?thesis
    by (intro conjI accepted refused input buttons)
qed

theorem put_cart_stores_quantity_witness:
  "int4_or_null (Some (inputQuantity (Some (- 4))))
   \<and> status (fst (put_cart (example_db 300 150) ''a'' (Some (inputQuantity (Some (- 4)))))) = 200
   \<and> cartItems (snd (put_cart (example_db 300 150) ''a'' (Some (inputQuantity (Some (- 4))))))
       = [example_a\<lparr>c_quantity := Some 1\<rparr>, example_b]
   \<and> inputQuantity (Some (- 4)) = 1
   \<and> inputQuantity None = 1
   \<and> updateQuantity 2 (- 1) = Some 1
   \<and> updateQuantity 1 (- 1) = None
   \<and> \<not> int4_or_null (Some 2147483648)
   \<and> put_cart (example_db 300 150) ''a'' (Some 2147483648)
       = (Response 500 (Message ''Failed to update cart item''), example_db 300 150)"
proof -
  define st where "st = example_db 300 150"
  note inst = put_cart_stores_quantity[of "Some (inputQuantity (Some (- 4)))" st "''a''"
      "Some (- 4)" 2 "- 1"]
  note big = put_cart_stores_quantity[of "Some 2147483648" st "''a''" None 1 1]
  have fits: "int4_or_null (Some (inputQuantity (Some (- 4))))"
    by (simp add: int4_or_null_def int4_def inputQuantity_def)
  have too_big: "\<not> int4_or_null (Some 2147483648)"
    by (simp add: int4_or_null_def int4_def)
  have rows: "cartItems (snd (put_cart st ''a'' (Some (inputQuantity (Some (- 4))))))
       = [example_a\<lparr>c_quantity := Some 1\<rparr>, example_b]"
    using fits
    by (simp add: st_def put_cart_def updateCartItem_def Let_def inputQuantity_def example_defs)
  have "1 \<le> inputQuantity (Some (- 4))"
    using inst by (elim conjE)
  moreover have "inputQuantity (Some (- 4)) \<le> 1"
    by (simp add: inputQuantity_def)
  ultimately have input: "inputQuantity (Some (- 4)) = 1"
    by simp
  show ?thesis
    unfolding st_def[symmetric]
    by (intro conjI fits inst[THEN conjunct1, THEN mp, OF fits, THEN conjunct1] rows input
        too_big big[THEN conjunct2, THEN conjunct1, THEN mp, OF too_big])
       (simp_all add: inputQuantity_def updateQuantity_def)
qed

theorem put_cart_quantity_counterexample:
  "fst (put_cart (example_db 300 150) ''a'' (Some 0))
     = Response 200 (CartItemBody (Some (example_a\<lparr>c_quantity := Some 0\<rparr>)))
   \<and> cartItems (snd (put_cart (example_db 300 150) ''a'' (Some 0)))
       = [example_a\<lparr>c_quantity := Some 0\<rparr>, example_b]
   \<and> c_quantity (example_a\<lparr>c_quantity := Some 0\<rparr>) = Some 0
   \<and> \<not> (1 \<le> (0 :: int))"
  by (simp add: put_cart_def updateCartItem_def int4_or_null_def int4_def Let_def example_defs)

text \<open>
  C4. When an order placement is answered 201, the cart table holds exactly the rows it
  held before whose id is not among the requested ids: every row with a requested id is
  gone, whoever owns it and whether or not it was part of the order. When the answer is
  not 201, no cart row is deleted.
\<close>

theorem create_order_clears_requested_ids:
  "(status (fst (create_order uuid rank st userId cartItemIds addr pay)) = 201 \<longrightarrow>
      cartItems (snd (create_order uuid rank st userId cartItemIds addr pay))
        = filter (\<lambda>c. c_id c \<notin> set cartItemIds) (cartItems st))
   \<and> (status (fst (create_order uuid rank st userId cartItemIds addr pay)) \<noteq> 201 \<longrightarrow>
      cartItems (snd (create_order uuid rank st userId cartItemIds addr pay)) = cartItems st)"
proof (cases "validCartItems rank st userId cartItemIds = []")
  case True
  then show ?thesis by (simp add: create_order_def)
next
  case ne: False
  define A where "A = (\<Sum>item\<leftarrow>validCartItems rank st userId cartItemIds.
                 p_price (pws_product (ciw_product item))
                   * (case c_quantity (ciw_item item) of None \<Rightarrow> 0 | Some n \<Rightarrow> n))"
  define C where "C = (\<Sum>item\<leftarrow>validCartItems rank st userId cartItemIds.
                 p_carbonSaved (pws_product (ciw_product item))
                   * (case c_quantity (ciw_item item) of None \<Rightarrow> 0 | Some n \<Rightarrow> n))"
  show ?thesis
  proof (cases "userId \<notin> set (map u_id (users st)) \<or> addr = None
           \<or> \<not> \<bar>A\<bar> < 10 ^ 10 \<or> \<not> \<bar>C\<bar> < 10 ^ 10")
    case True
    show ?thesis
      by (simp add: create_order_refused[OF ne A_def C_def True])
  next
    case ok: False
    then obtain address where addr: "addr = Some address" by auto
    from ok have u: "userId \<in> set (map u_id (users st))" and a: "\<bar>A\<bar> < 10 ^ 10"
      and c: "\<bar>C\<bar> < 10 ^ 10" by auto
    show ?thesis
      by (simp add: create_order_inserted[OF ne A_def C_def u addr a c refl])
  qed
qed

theorem create_order_clears_requested_ids_witness:
  "map (\<lambda>item. c_id (ciw_item item))
       (validCartItems table_order example_db2 ''u1'' [''a'', ''c'', ''d'']) = [''a'']
   \<and> cartItems example_db2 = [example_a, example_b, example_c, example_d]
   \<and> status (fst (create_order example_uuid table_order example_db2 ''u1'' [''a'', ''c'', ''d'']
                     (Some ''1 Green Lane'') None)) = 201
   \<and> cartItems (snd (create_order example_uuid table_order example_db2 ''u1''
                        [''a'', ''c'', ''d''] (Some ''1 Green Lane'') None)) = [example_b]
   \<and> status (fst (create_order example_uuid table_order example_db2 ''u1'' [''a'', ''c'', ''d'']
                     None None)) = 500
   \<and> cartItems (snd (create_order example_uuid table_order example_db2 ''u1''
                        [''a'', ''c'', ''d''] None None))
       = [example_a, example_b, example_c, example_d]"
proof -
  define r where "r = create_order example_uuid table_order example_db2 ''u1''
                        [''a'', ''c'', ''d''] (Some ''1 Green Lane'') None"
  define r' where "r' = create_order example_uuid table_order example_db2 ''u1''
                        [''a'', ''c'', ''d''] None None"
  have valid: "validCartItems table_order example_db2 ''u1'' [''a'', ''c'', ''d''] =
     [\<lparr>ciw_item = example_a,
       ciw_product = \<lparr>pws_product = example_P1 300, pws_seller = example_seller,
                      pws_reviews = example_reviews\<rparr>\<rparr>]"
    unfolding validCartItems_def example2_cart example_cart by (simp add: example_defs)
  have billed: "map (\<lambda>item. c_id (ciw_item item))
       (validCartItems table_order example_db2 ''u1'' [''a'', ''c'', ''d'']) = [''a'']"
    unfolding valid by (simp add: example_defs)
  have ne: "validCartItems table_order example_db2 ''u1'' [''a'', ''c'', ''d''] \<noteq> []"
    unfolding valid by simp
  have rows: "cartItems example_db2 = [example_a, example_b, example_c, example_d]"
    by (simp add: example_db2_def)
  have kept: "filter (\<lambda>c. c_id c \<notin> set [''a'', ''c'', ''d'']) (cartItems example_db2) = [example_b]"
    unfolding rows by (simp add: example_defs example2_defs)
  have u: "''u1'' \<in> set (map u_id (users example_db2))"
    by (simp add: example_defs example2_defs)
  have A: "(2000 :: int) = (\<Sum>item\<leftarrow>validCartItems table_order example_db2 ''u1'' [''a'', ''c'', ''d''].
                 p_price (pws_product (ciw_product item))
                   * (case c_quantity (ciw_item item) of None \<Rightarrow> 0 | Some n \<Rightarrow> n))"
    unfolding valid by (simp add: example_defs)
  have C: "(600 :: int) = (\<Sum>item\<leftarrow>validCartItems table_order example_db2 ''u1'' [''a'', ''c'', ''d''].
                 p_carbonSaved (pws_product (ciw_product item))
                   * (case c_quantity (ciw_item item) of None \<Rightarrow> 0 | Some n \<Rightarrow> n))"
    unfolding valid by (simp add: example_defs)
  have a: "\<bar>2000 :: int\<bar> < 10 ^ 10" and c: "\<bar>600 :: int\<bar> < 10 ^ 10"
    by simp_all
  have ok: "status (fst r) = 201"
    unfolding r_def create_order_inserted[OF ne A C u refl a c refl]
    by (simp add: example_defs example2_defs)
  have missing: "''u1'' \<notin> set (map u_id (users example_db2)) \<or> (None :: string option) = None
                 \<or> \<not> \<bar>2000 :: int\<bar> < 10 ^ 10 \<or> \<not> \<bar>600 :: int\<bar> < 10 ^ 10"
    by simp
  have failed: "status (fst r') = 500"
    unfolding r'_def by (simp add: create_order_refused[OF ne A C missing])
  then have not_ok: "status (fst r') \<noteq> 201" by simp
  note T = create_order_clears_requested_ids[of example_uuid table_order example_db2 "''u1''"
      "[''a'', ''c'', ''d'']" "Some ''1 Green Lane''" None, folded r_def]
  note T' = create_order_clears_requested_ids[of example_uuid table_order example_db2 "''u1''"
      "[''a'', ''c'', ''d'']" None None, folded r'_def]
  have cleared: "cartItems (snd r) = [example_b]"
    using T[THEN conjunct1, THEN mp, OF ok] unfolding kept .
  have untouched: "cartItems (snd r') = [example_a, example_b, example_c, example_d]"
    using T'[THEN conjunct2, THEN mp, OF not_ok] unfolding rows .
  show ?thesis
    unfolding r_def[symmetric] r'_def[symmetric]
    by (intro conjI billed rows ok cleared failed untouched)
qed

text \<open>
  C5. An update of a product, of its price or of any other field, leaves every stored
  order and order item as it is, whether it goes through or fails, and so does every
  request of the REST surface: it can only add rows after the ones that are there. So the
  price and the carbon saved of an order item, and the total of its order, stay what they
  were when the order was placed.
\<close>

theorem order_rows_are_snapshots:
  "orders (state_after st (updateProduct st pid updates)) = orders st
   \<and> orderItems (state_after st (updateProduct st pid updates)) = orderItems st
   \<and> (\<exists>newOrders newItems.
          orders (route_effect uuid rank st req) = orders st @ newOrders
        \<and> orderItems (route_effect uuid rank st req) = orderItems st @ newItems)"
proof -
  have "orders (state_after st (updateProduct st pid updates)) = orders st"
    by (simp add: updateProduct_def state_after_def Let_def)
  moreover have "orderItems (state_after st (updateProduct st pid updates)) = orderItems st"
    by (simp add: updateProduct_def state_after_def Let_def)
  ultimately show ?thesis
    using route_effect_orders[of uuid rank st req] by (intro conjI)
qed

theorem order_rows_are_snapshots_witness:
  "map p_price
     (products (state_after
        (snd (create_order example_uuid table_order (example_db 300 150) ''u1'' [''a'', ''b'']
                (Some ''1 Green Lane'') None))
        (updateProduct
           (snd (create_order example_uuid table_order (example_db 300 150) ''u1'' [''a'', ''b'']
                   (Some ''1 Green Lane'') None))
           ''P1''
           \<lparr>pu_sellerId = None, pu_title = None, pu_price = Some 99, pu_carbonSaved = Some 0,
            pu_available = None\<rparr>))) = [9900, 500]
   \<and> map o_totalAmount
     (orders (state_after
        (snd (create_order example_uuid table_order (example_db 300 150) ''u1'' [''a'', ''b'']
                (Some ''1 Green Lane'') None))
        (updateProduct
           (snd (create_order example_uuid table_order (example_db 300 150) ''u1'' [''a'', ''b'']
                   (Some ''1 Green Lane'') None))
           ''P1''
           \<lparr>pu_sellerId = None, pu_title = None, pu_price = Some 99, pu_carbonSaved = Some 0,
            pu_available = None\<rparr>))) = [2500]
   \<and> map oi_price
     (orderItems (state_after
        (snd (create_order example_uuid table_order (example_db 300 150) ''u1'' [''a'', ''b'']
                (Some ''1 Green Lane'') None))
        (updateProduct
           (snd (create_order example_uuid table_order (example_db 300 150) ''u1'' [''a'', ''b'']
                   (Some ''1 Green Lane'') None))
           ''P1''
           \<lparr>pu_sellerId = None, pu_title = None, pu_price = Some 99, pu_carbonSaved = Some 0,
            pu_available = None\<rparr>))) = [1000, 500]
   \<and> map oi_carbonSaved
     (orderItems (state_after
        (snd (create_order example_uuid table_order (example_db 300 150) ''u1'' [''a'', ''b'']
                (Some ''1 Green Lane'') None))
        (updateProduct
           (snd (create_order example_uuid table_order (example_db 300 150) ''u1'' [''a'', ''b'']
                   (Some ''1 Green Lane'') None))
           ''P1''
           \<lparr>pu_sellerId = None, pu_title = None, pu_price = Some 99, pu_carbonSaved = Some 0,
            pu_available = None\<rparr>))) = [Some 300, Some 150]"
proof -
  define st1 where
    "st1 = snd (create_order example_uuid table_order (example_db 300 150) ''u1'' [''a'', ''b'']
                  (Some ''1 Green Lane'') None)"
  define updates where
    "updates = \<lparr>pu_sellerId = None, pu_title = None, pu_price = Some 99,
                 pu_carbonSaved = Some 0, pu_available = None\<rparr>"
  note kept = order_rows_are_snapshots[of st1 "''P1''" updates example_uuid table_order
      GetProducts]
  have placed: "st1 =
        (example_db 300 150)
          \<lparr>orders :=
             [\<lparr>o_id = example_uuid 0, o_buyerId = ''u1'', o_totalAmount = 2500,
               o_status = Some confirmed, o_shippingAddress = ''1 Green Lane'',
               o_paymentIntentId = None, o_totalCarbonSaved = Some (2 * 300 + 150)\<rparr>],
           orderItems :=
             [\<lparr>oi_id = example_uuid 1, oi_orderId = example_uuid 0, oi_productId = ''P1'',
               oi_sellerId = ''s1'', oi_price = 1000, oi_quantity = Some 2,
               oi_carbonSaved = Some 300\<rparr>,
              \<lparr>oi_id = example_uuid 2, oi_orderId = example_uuid 0, oi_productId = ''P2'',
               oi_sellerId = ''s1'', oi_price = 500, oi_quantity = Some 1,
               oi_carbonSaved = Some 150\<rparr>],
           users := [example_seller,
                     example_buyer\<lparr>u_totalCarbonSaved := Some (400 + (2 * 300 + 150))\<rparr>],
           cartItems := []\<rparr>"
    unfolding st1_def
    by (subst create_order_example) simp_all
  have round: "numeric_round 99 = 9900" "numeric_round 0 = 0"
    using numeric_round_hundredths[of 9900] numeric_round_hundredths[of 0] by simp_all
  have prices: "map p_price (products (state_after st1 (updateProduct st1 ''P1'' updates)))
      = [9900, 500]"
    unfolding placed
    by (simp add: updateProduct_def updates_ok_def state_after_def Let_def apply_updates_def
        updates_def round example_defs)
  have "map o_totalAmount (orders st1) = [2500]"
    unfolding placed by simp
  then have total: "map o_totalAmount (orders (state_after st1 (updateProduct st1 ''P1'' updates)))
      = [2500]"
    by (simp only: kept[THEN conjunct1])
  have "map oi_price (orderItems st1) = [1000, 500]"
    unfolding placed by simp
  then have items: "map oi_price
      (orderItems (state_after st1 (updateProduct st1 ''P1'' updates))) = [1000, 500]"
    by (simp only: kept[THEN conjunct2, THEN conjunct1])
  have "map oi_carbonSaved (orderItems st1) = [Some 300, Some 150]"
    unfolding placed by simp
  then have carbon: "map oi_carbonSaved
      (orderItems (state_after st1 (updateProduct st1 ''P1'' updates))) = [Some 300, Some 150]"
    by (simp only: kept[THEN conjunct2, THEN conjunct1])
  show ?thesis
    unfolding st1_def[symmetric] updates_def[symmetric]
    by (intro conjI prices total items carbon)
qed

text \<open>
  C6, as the code has it. A payment-intent request whose amount is missing or at most 0
  makes no call to the payment processor. It is answered 400 when the processor is
  configured and 503 when it is not.
\<close>

theorem create_payment_intent_invalid_amount:
  assumes "amount = None \<or> (\<exists>a. amount = Some a \<and> a \<le> 0)"
  shows "snd (create_payment_intent stripe calls userId amount cartItemIds) = calls
       \<and> status (fst (create_payment_intent stripe calls userId amount cartItemIds))
           = (case stripe of None \<Rightarrow> 503 | Some client \<Rightarrow> 400)"
  using assms
  by (auto simp: create_payment_intent_def split: option.splits)

theorem create_payment_intent_invalid_amount_witness:
  "snd (create_payment_intent (Some (\<lambda>params. Inr ''secret'')) [] ''u1'' (Some (- 5)) [''a''])
     = []
   \<and> status (fst (create_payment_intent (Some (\<lambda>params. Inr ''secret'')) [] ''u1''
                     (Some (- 5)) [''a''])) = 400
   \<and> snd (create_payment_intent None [] ''u1'' None [''a'']) = []"
proof -
  have neg: "Some (- 5 :: rat) = None \<or> (\<exists>a. Some (- 5 :: rat) = Some a \<and> a \<le> 0)"
    by simp
  have missing: "(None :: rat option) = None \<or> (\<exists>a. (None :: rat option) = Some a \<and> a \<le> 0)"
    by simp
  show ?thesis
    using create_payment_intent_invalid_amount[OF neg,
        of "Some (\<lambda>params. Inr ''secret'')" "[]" "''u1''" "[''a'']"]
      create_payment_intent_invalid_amount[OF missing, of None "[]" "''u1''" "[''a'']"]
    by simp
qed

theorem create_payment_intent_counterexample:
  "fst (create_payment_intent None [] ''u1'' (Some 0) [''a''])
     = Response 503 (Message ''Payment processing is not configured. Please contact support.'')
   \<and> \<not> client_error (fst (create_payment_intent None [] ''u1'' (Some 0) [''a'']))"
  by (simp add: create_payment_intent_def client_error_def)

text \<open>
  C7, as the code has it. A fetch of a product id that is not found answers 404 and
  returns the state as it was. A fetch of a product that is found, all of whose counters
  are below 2147483647 (the largest value of the \<open>integer\<close> column), answers 200 with it
  and changes the state in one way only: in every product row with that id the view
  counter is one higher (a row with \<open>v\<close> views has \<open>v + 1\<close>; a \<open>NULL\<close> stays
  \<open>NULL\<close>), so that after \<open>n\<close> such fetches it is \<open>n\<close> higher. A fetch of a product
  that is found and has a counter of 2147483647 answers 500 and returns the state as it
  was. No run of fetches lowers a counter. No request of the REST surface makes a counter
  \<open>NULL\<close>.
\<close>

theorem get_product_increments_views:
  "(getProduct st pid = None \<longrightarrow>
      get_product st pid = (Response 404 (Message ''Product not found''), st))
   \<and> (\<forall>product. getProduct st pid = Some product \<and> views_fit st pid 1 \<longrightarrow>
          fst (get_product st pid) = Response 200 (ProductBody product)
        \<and> snd (get_product st pid) =
            st\<lparr>products :=
                 map (\<lambda>p. if p_id p = pid
                          then p\<lparr>p_views := map_option (\<lambda>v. v + 1) (p_views p)\<rparr>
                          else p)
                     (products st)\<rparr>
        \<and> (\<forall>p v. p \<in> set (products st) \<and> p_id p = pid \<and> p_views p = Some v \<longrightarrow>
               p\<lparr>p_views := Some (v + 1)\<rparr> \<in> set (products (snd (get_product st pid)))))
   \<and> (\<forall>product p. getProduct st pid = Some product
          \<and> p \<in> set (products st) \<and> p_id p = pid \<and> p_views p = Some 2147483647 \<longrightarrow>
          get_product st pid = (Response 500 (Message ''Failed to fetch product''), st))
   \<and> (\<forall>n. getProduct st pid \<noteq> None \<and> views_fit st pid (int n) \<longrightarrow>
          fetches n st pid =
            st\<lparr>products :=
                 map (\<lambda>p. if p_id p = pid
                          then p\<lparr>p_views := map_option (\<lambda>v. v + int n) (p_views p)\<rparr>
                          else p)
                     (products st)\<rparr>)
   \<and> (\<forall>n. list_all2 views_kept_or_grown (products st) (products (fetches n st pid)))
   \<and> (list_all (\<lambda>p. p_views p \<noteq> None) (products st) \<longrightarrow>
        list_all (\<lambda>p. p_views p \<noteq> None) (products (route_effect uuid rank st req)))"
proof -
  have absent: "getProduct st pid = None \<longrightarrow>
      get_product st pid = (Response 404 (Message ''Product not found''), st)"
    by (simp add: get_product_def)
  have found: "\<forall>product. getProduct st pid = Some product \<and> views_fit st pid 1 \<longrightarrow>
          fst (get_product st pid) = Response 200 (ProductBody product)
        \<and> snd (get_product st pid) =
            st\<lparr>products :=
                 map (\<lambda>p. if p_id p = pid
                          then p\<lparr>p_views := map_option (\<lambda>v. v + 1) (p_views p)\<rparr>
                          else p)
                     (products st)\<rparr>
        \<and> (\<forall>p v. p \<in> set (products st) \<and> p_id p = pid \<and> p_views p = Some v \<longrightarrow>
               p\<lparr>p_views := Some (v + 1)\<rparr> \<in> set (products (snd (get_product st pid))))"
  proof (intro allI impI)
    fix product
    assume "getProduct st pid = Some product \<and> views_fit st pid 1"
    then have product: "getProduct st pid = Some product" and fit: "views_fit st pid 1"
      by simp_all
    note step = incrementProductViews_fit[OF fit]
    have response: "fst (get_product st pid) = Response 200 (ProductBody product)"
      by (simp add: get_product_def product step)
    have state: "snd (get_product st pid) =
            st\<lparr>products :=
                 map (\<lambda>p. if p_id p = pid
                          then p\<lparr>p_views := map_option (\<lambda>v. v + 1) (p_views p)\<rparr>
                          else p)
                     (products st)\<rparr>"
      by (simp add: get_product_def product step)
    have rows: "\<forall>p v. p \<in> set (products st) \<and> p_id p = pid \<and> p_views p = Some v \<longrightarrow>
               p\<lparr>p_views := Some (v + 1)\<rparr> \<in> set (products (snd (get_product st pid)))"
    proof (intro allI impI)
      fix p v
      assume row: "p \<in> set (products st) \<and> p_id p = pid \<and> p_views p = Some v"
      have "products (snd (get_product st pid)) =
          map (\<lambda>p. if p_id p = pid
                   then p\<lparr>p_views := map_option (\<lambda>v. v + 1) (p_views p)\<rparr>
                   else p)
              (products st)"
        unfolding state by simp
      then show "p\<lparr>p_views := Some (v + 1)\<rparr> \<in> set (products (snd (get_product st pid)))"
        using views_row_incremented[of p "products st" pid v] row by (simp only:)
    qed
    show "fst (get_product st pid) = Response 200 (ProductBody product)
        \<and> snd (get_product st pid) =
            st\<lparr>products :=
                 map (\<lambda>p. if p_id p = pid
                          then p\<lparr>p_views := map_option (\<lambda>v. v + 1) (p_views p)\<rparr>
                          else p)
                     (products st)\<rparr>
        \<and> (\<forall>p v. p \<in> set (products st) \<and> p_id p = pid \<and> p_views p = Some v \<longrightarrow>
               p\<lparr>p_views := Some (v + 1)\<rparr> \<in> set (products (snd (get_product st pid))))"
      by (intro conjI response state rows)
  qed
  have full: "\<forall>product p. getProduct st pid = Some product
          \<and> p \<in> set (products st) \<and> p_id p = pid \<and> p_views p = Some 2147483647 \<longrightarrow>
          get_product st pid = (Response 500 (Message ''Failed to fetch product''), st)"
  proof (intro allI impI)
    fix product p
    assume a: "getProduct st pid = Some product
          \<and> p \<in> set (products st) \<and> p_id p = pid \<and> p_views p = Some 2147483647"
    then have "incrementProductViews st pid = Inl OutOfRange"
      by (intro incrementProductViews_full[of p]) simp_all
    with a show "get_product st pid = (Response 500 (Message ''Failed to fetch product''), st)"
      by (simp add: get_product_def)
  qed
  have run: "\<forall>n. getProduct st pid \<noteq> None \<and> views_fit st pid (int n) \<longrightarrow>
          fetches n st pid =
            st\<lparr>products :=
                 map (\<lambda>p. if p_id p = pid
                          then p\<lparr>p_views := map_option (\<lambda>v. v + int n) (p_views p)\<rparr>
                          else p)
                     (products st)\<rparr>"
  proof (intro allI impI)
    fix n
    assume "getProduct st pid \<noteq> None \<and> views_fit st pid (int n)"
    then have "getProduct st pid \<noteq> None" and "views_fit st pid (int n)"
      by simp_all
    then show "fetches n st pid =
            st\<lparr>products :=
                 map (\<lambda>p. if p_id p = pid
                          then p\<lparr>p_views := map_option (\<lambda>v. v + int n) (p_views p)\<rparr>
                          else p)
                     (products st)\<rparr>"
      by (rule fetches_views)
  qed
  have mono: "\<forall>n. list_all2 views_kept_or_grown (products st) (products (fetches n st pid))"
    by (intro allI fetches_views_kept_or_grown)
  have not_null: "list_all (\<lambda>p. p_views p \<noteq> None) (products st) \<longrightarrow>
        list_all (\<lambda>p. p_views p \<noteq> None) (products (route_effect uuid rank st req))"
    by (intro impI route_effect_views_not_null)
  show ?thesis
    by (intro conjI absent found full run mono not_null)
qed

theorem get_product_increments_views_witness:
  "get_product (example_db 300 150) ''P9''
     = (Response 404 (Message ''Product not found''), example_db 300 150)
   \<and> status (fst (get_product (example_db 300 150) ''P2'')) = 200
   \<and> map p_views (products (example_db 300 150)) = [Some 0, Some 7]
   \<and> map p_views (products (snd (get_product (example_db 300 150) ''P2''))) = [Some 0, Some 8]
   \<and> map p_views (products (fetches 3 (example_db 300 150) ''P2'')) = [Some 0, Some 10]
   \<and> list_all2 views_kept_or_grown (products (example_db 300 150))
        (products (fetches 3 (example_db 300 150) ''P2''))
   \<and> get_product
        ((example_db 300 150)
           \<lparr>products := [example_P1 300, (example_P2 150)\<lparr>p_views := Some 2147483647\<rparr>]\<rparr>) ''P2''
       = (Response 500 (Message ''Failed to fetch product''),
          (example_db 300 150)
            \<lparr>products := [example_P1 300, (example_P2 150)\<lparr>p_views := Some 2147483647\<rparr>]\<rparr>)
   \<and> list_all (\<lambda>p. p_views p \<noteq> None)
        (products (route_effect example_uuid table_order (example_db 300 150)
                     (GetProduct ''P2'')))"
proof -
  define st where "st = example_db 300 150"
  define full where "full = (example_db 300 150)
           \<lparr>products := [example_P1 300, (example_P2 150)\<lparr>p_views := Some 2147483647\<rparr>]\<rparr>"
  define product where
    "product = \<lparr>pws_product = example_P2 150, pws_seller = example_seller, pws_reviews = []\<rparr>"
  define product' where
    "product' = \<lparr>pws_product = (example_P2 150)\<lparr>p_views := Some 2147483647\<rparr>,
                  pws_seller = example_seller, pws_reviews = []\<rparr>"
  have absent: "getProduct st ''P9'' = None"
    unfolding st_def by (rule example_getProduct_absent)
  have present: "getProduct st ''P2'' = Some product"
    unfolding st_def product_def by (rule example_getProduct)
  have fit1: "views_fit st ''P2'' 1"
    by (simp add: st_def views_fit_def int4_def example_defs)
  have fit3: "views_fit st ''P2'' (int 3)"
    by (simp add: st_def views_fit_def int4_def example_defs)
  have present': "getProduct full ''P2'' = Some product'"
    unfolding full_def product'_def
    by (simp add: getProduct_def left_join_def List.map_filter_def example_defs)
  have row: "(example_P2 150)\<lparr>p_views := Some 2147483647\<rparr> \<in> set (products full)
      \<and> p_id ((example_P2 150)\<lparr>p_views := Some 2147483647\<rparr>) = ''P2''
      \<and> p_views ((example_P2 150)\<lparr>p_views := Some 2147483647\<rparr>) = Some 2147483647"
    by (simp add: full_def example_defs)
  have all: "list_all (\<lambda>p. p_views p \<noteq> None) (products st)"
    by (simp add: st_def example_defs)
  note miss = get_product_increments_views[of st "''P9''", THEN conjunct1, THEN mp, OF absent]
  note hit = get_product_increments_views[of st "''P2''", THEN conjunct2, THEN conjunct1,
      THEN spec, THEN mp, OF conjI, OF present fit1]
  note refused = get_product_increments_views[of full "''P2''", THEN conjunct2, THEN conjunct2,
      THEN conjunct1, THEN spec, THEN spec, THEN mp, OF conjI, OF present' row]
  note run = get_product_increments_views[of st "''P2''", THEN conjunct2, THEN conjunct2,
      THEN conjunct2, THEN conjunct1, THEN spec, of 3]
  note mono = get_product_increments_views[of st "''P2''", THEN conjunct2, THEN conjunct2,
      THEN conjunct2, THEN conjunct2, THEN conjunct1, THEN spec, of 3]
  note kept = get_product_increments_views[of st "''P2''" example_uuid table_order
      "GetProduct ''P2''", THEN conjunct2, THEN conjunct2, THEN conjunct2, THEN conjunct2,
      THEN conjunct2, THEN mp, OF all]
  have ok: "status (fst (get_product st ''P2'')) = 200"
    using hit[THEN conjunct1] by simp
  have before: "map p_views (products st) = [Some 0, Some 7]"
    by (simp add: st_def example_defs)
  have once: "map p_views (products (snd (get_product st ''P2''))) = [Some 0, Some 8]"
    unfolding hit[THEN conjunct2, THEN conjunct1]
    by (simp add: st_def example_defs)
  have found: "getProduct st ''P2'' \<noteq> None \<and> views_fit st ''P2'' (int 3)"
    using present fit3 by simp
  have thrice: "map p_views (products (fetches 3 st ''P2'')) = [Some 0, Some 10]"
    unfolding run[THEN mp, OF found]
    by (simp add: st_def example_defs)
  show ?thesis
    unfolding full_def[symmetric]
    unfolding st_def[symmetric]
    by (intro conjI miss ok before once thrice mono refused kept)
qed

theorem get_product_views_counterexample:
  "getProduct
     ((example_db 300 150)
        \<lparr>products := [(example_P1 300)\<lparr>p_views := Some 2147483647\<rparr>, example_P2 150]\<rparr>) ''P1''
     = Some \<lparr>pws_product = (example_P1 300)\<lparr>p_views := Some 2147483647\<rparr>,
             pws_seller = example_seller, pws_reviews = example_reviews\<rparr>
   \<and> get_product
        ((example_db 300 150)
           \<lparr>products := [(example_P1 300)\<lparr>p_views := Some 2147483647\<rparr>, example_P2 150]\<rparr>) ''P1''
       = (Response 500 (Message ''Failed to fetch product''),
          (example_db 300 150)
            \<lparr>products := [(example_P1 300)\<lparr>p_views := Some 2147483647\<rparr>, example_P2 150]\<rparr>)
   \<and> map p_views
        (products (snd (get_product
           ((example_db 300 150)
              \<lparr>products := [(example_P1 300)\<lparr>p_views := Some 2147483647\<rparr>, example_P2 150]\<rparr>)
           ''P1'')))
       = [Some 2147483647, Some 7]"
  by (simp add: get_product_def getProduct_def incrementProductViews_def int4_or_null_def
      int4_def left_join_def List.map_filter_def example_defs)




text \<open>
  C9. Every item of a cart listing pairs a stored cart row of that user with the stored
  product it refers to, and that product has \<open>available = true\<close>. A cart row whose
  product is not available is in no listing; the listing, and with it the response, the
  order and the order items of an order placement, are what they would be if the row were
  not in storage.
\<close>

theorem getCartItems_available_only:
  "(\<forall>item \<in> set (getCartItems rank st userId).
        ciw_item item \<in> set (cartItems st)
      \<and> c_userId (ciw_item item) = userId
      \<and> pws_product (ciw_product item) \<in> set (products st)
      \<and> p_id (pws_product (ciw_product item)) = c_productId (ciw_item item)
      \<and> p_available (pws_product (ciw_product item)) = Some True)
   \<and> ((\<forall>p \<in> set (products st). p_id p = c_productId c \<longrightarrow> p_available p \<noteq> Some True) \<longrightarrow>
          c \<notin> ciw_item ` set (getCartItems rank st userId)
        \<and> getCartItems rank (st\<lparr>cartItems := filter (\<lambda>x. x \<noteq> c) (cartItems st)\<rparr>) userId
            = getCartItems rank st userId
        \<and> fst (create_order uuid rank (st\<lparr>cartItems := filter (\<lambda>x. x \<noteq> c) (cartItems st)\<rparr>)
                 userId ids addr pay)
            = fst (create_order uuid rank st userId ids addr pay)
        \<and> orders (snd (create_order uuid rank (st\<lparr>cartItems := filter (\<lambda>x. x \<noteq> c) (cartItems st)\<rparr>)
                 userId ids addr pay))
            = orders (snd (create_order uuid rank st userId ids addr pay))
        \<and> orderItems (snd (create_order uuid rank
                 (st\<lparr>cartItems := filter (\<lambda>x. x \<noteq> c) (cartItems st)\<rparr>) userId ids addr pay))
            = orderItems (snd (create_order uuid rank st userId ids addr pay)))"
proof (rule conjI)
  show "\<forall>item \<in> set (getCartItems rank st userId).
        ciw_item item \<in> set (cartItems st)
      \<and> c_userId (ciw_item item) = userId
      \<and> pws_product (ciw_product item) \<in> set (products st)
      \<and> p_id (pws_product (ciw_product item)) = c_productId (ciw_item item)
      \<and> p_available (pws_product (ciw_product item)) = Some True"
    by (rule ballI) (rule getCartItems_row)
next
  let ?st' = "st\<lparr>cartItems := filter (\<lambda>x. x \<noteq> c) (cartItems st)\<rparr>"
  show "(\<forall>p \<in> set (products st). p_id p = c_productId c \<longrightarrow> p_available p \<noteq> Some True) \<longrightarrow>
          c \<notin> ciw_item ` set (getCartItems rank st userId)
        \<and> getCartItems rank ?st' userId = getCartItems rank st userId
        \<and> fst (create_order uuid rank ?st' userId ids addr pay)
            = fst (create_order uuid rank st userId ids addr pay)
        \<and> orders (snd (create_order uuid rank ?st' userId ids addr pay))
            = orders (snd (create_order uuid rank st userId ids addr pay))
        \<and> orderItems (snd (create_order uuid rank ?st' userId ids addr pay))
            = orderItems (snd (create_order uuid rank st userId ids addr pay))"
  proof (rule impI)
    assume un: "\<forall>p \<in> set (products st). p_id p = c_productId c \<longrightarrow> p_available p \<noteq> Some True"
    have omitted: "c \<notin> ciw_item ` set (getCartItems rank st userId)"
    proof
      assume "c \<in> ciw_item ` set (getCartItems rank st userId)"
      then obtain item where "item \<in> set (getCartItems rank st userId)" "ciw_item item = c"
        by auto
      then have "pws_product (ciw_product item) \<in> set (products st)
          \<and> p_id (pws_product (ciw_product item)) = c_productId c
          \<and> p_available (pws_product (ciw_product item)) = Some True"
        using getCartItems_row[of item rank st userId] by simp
      then show False using un by blast
    qed
    have same: "getCartItems rank ?st' userId = getCartItems rank st userId"
      by (rule getCartItems_without[OF un])
    have valid: "validCartItems rank ?st' userId ids = validCartItems rank st userId ids"
      by (simp only: validCartItems_def same)
    have dep: "fst (create_order uuid rank ?st' userId ids addr pay)
           = fst (create_order uuid rank st userId ids addr pay)
         \<and> orders (snd (create_order uuid rank ?st' userId ids addr pay))
             = orders (snd (create_order uuid rank st userId ids addr pay))
         \<and> orderItems (snd (create_order uuid rank ?st' userId ids addr pay))
             = orderItems (snd (create_order uuid rank st userId ids addr pay))"
      by (rule create_order_depends[OF valid])
    show "c \<notin> ciw_item ` set (getCartItems rank st userId)
        \<and> getCartItems rank ?st' userId = getCartItems rank st userId
        \<and> fst (create_order uuid rank ?st' userId ids addr pay)
            = fst (create_order uuid rank st userId ids addr pay)
        \<and> orders (snd (create_order uuid rank ?st' userId ids addr pay))
            = orders (snd (create_order uuid rank st userId ids addr pay))
        \<and> orderItems (snd (create_order uuid rank ?st' userId ids addr pay))
            = orderItems (snd (create_order uuid rank st userId ids addr pay))"
      by (intro conjI omitted same dep[THEN conjunct1] dep[THEN conjunct2, THEN conjunct1]
          dep[THEN conjunct2, THEN conjunct2])
  qed
qed

theorem getCartItems_available_only_witness:
  "example_c \<in> set (cartItems example_db2)
   \<and> map p_available (filter (\<lambda>p. p_id p = c_productId example_c) (products example_db2))
       = [Some False]
   \<and> map (\<lambda>item. c_id (ciw_item item)) (getCartItems table_order example_db2 ''u1'') = [''a'', ''b'']
   \<and> map (\<lambda>item. p_available (pws_product (ciw_product item))) (getCartItems table_order example_db2 ''u1'')
       = [Some True, Some True]
   \<and> example_c \<notin> ciw_item ` set (getCartItems table_order example_db2 ''u1'')
   \<and> getCartItems table_order
         (example_db2\<lparr>cartItems := filter (\<lambda>x. x \<noteq> example_c) (cartItems example_db2)\<rparr>) ''u1''
       = getCartItems table_order example_db2 ''u1''
   \<and> orderItems (snd (create_order example_uuid table_order
         (example_db2\<lparr>cartItems := filter (\<lambda>x. x \<noteq> example_c) (cartItems example_db2)\<rparr>)
         ''u1'' [''a'', ''c''] (Some ''1 Green Lane'') None))
       = orderItems (snd (create_order example_uuid table_order example_db2
         ''u1'' [''a'', ''c''] (Some ''1 Green Lane'') None))"
proof -
  have stored: "example_c \<in> set (cartItems example_db2)"
    by (simp add: example_db2_def)
  have product:
    "map p_available (filter (\<lambda>p. p_id p = c_productId example_c) (products example_db2))
       = [Some False]"
    by (simp add: example_defs example2_defs)
  have un: "\<forall>p \<in> set (products example_db2).
      p_id p = c_productId example_c \<longrightarrow> p_available p \<noteq> Some True"
    by (simp add: example_defs example2_defs)
  have ids: "map (\<lambda>item. c_id (ciw_item item)) (getCartItems table_order example_db2 ''u1'') = [''a'', ''b'']"
    unfolding example2_cart example_cart by (simp add: example_defs)
  have avail:
    "map (\<lambda>item. p_available (pws_product (ciw_product item))) (getCartItems table_order example_db2 ''u1'')
       = [Some True, Some True]"
    unfolding example2_cart example_cart by (simp add: example_defs)
  note inst = getCartItems_available_only[of table_order example_db2 "''u1''" example_c
      example_uuid "[''a'', ''c'']" "Some ''1 Green Lane''" None]
  note rest = inst[THEN conjunct2, THEN mp, OF un]
  show ?thesis
    by (intro conjI stored product ids avail rest[THEN conjunct1]
        rest[THEN conjunct2, THEN conjunct1]
        rest[THEN conjunct2, THEN conjunct2, THEN conjunct2, THEN conjunct2])
qed


end
